theory Spec2Isabelle
  imports Main
begin

section \<open>Python values, exceptions and container operations\<close>

text \<open>
  The model of \<^verbatim>\<open>src/GOP/models/homlgop.py\<close> (class HoMLGOP). Every Python exception
  the growth code can raise is a value; a computation returns \<open>Inl\<close> of the exception
  or \<open>Inr\<close> of its result. Output on stdout (the \<^verbatim>\<open>verbose\<close> prints and
  \<^verbatim>\<open>print(error)\<close>) is not modelled.
\<close>

datatype error =
    IndexError
  | KeyError
  | AttributeError
  | TypeError
  | IOError
  | RuntimeError string
  | CollaboratorError string

definition bind_res :: "'e + 'a \<Rightarrow> ('a \<Rightarrow> 'e + 'b) \<Rightarrow> 'e + 'b" where
  "bind_res m f = (case m of Inl e \<Rightarrow> Inl e | Inr a \<Rightarrow> f a)"

definition raise_in :: "'s \<Rightarrow> error + 'a \<Rightarrow> (error \<times> 's) + 'a" where
  "raise_in w m = (case m of Inl e \<Rightarrow> Inl (e, w) | Inr a \<Rightarrow> Inr a)"

text \<open>\<^verbatim>\<open>xs[i]\<close> for a non-negative index.\<close>
definition getitem :: "'a list \<Rightarrow> nat \<Rightarrow> error + 'a" where
  "getitem xs i = (if i < length xs then Inr (xs ! i) else Inl IndexError)"

text \<open>\<^verbatim>\<open>xs[-1]\<close>.\<close>
definition getitem_last :: "'a list \<Rightarrow> error + 'a" where
  "getitem_last xs = (if xs = [] then Inl IndexError else Inr (last xs))"

text \<open>\<^verbatim>\<open>xs[-2]\<close>.\<close>
definition getitem_m2 :: "'a list \<Rightarrow> error + 'a" where
  "getitem_m2 xs = (if length xs < 2 then Inl IndexError else Inr (xs ! (length xs - 2)))"

text \<open>\<^verbatim>\<open>xs[-2] = v\<close>, used only after \<^verbatim>\<open>xs[-2]\<close> has been read.\<close>
definition setitem_m2 :: "'a list \<Rightarrow> 'a \<Rightarrow> 'a list" where
  "setitem_m2 xs v = xs[length xs - 2 := v]"

text \<open>\<^verbatim>\<open>xs.pop()\<close>: the list without its last element.\<close>
definition list_pop :: "'a list \<Rightarrow> error + 'a list" where
  "list_pop xs = (if xs = [] then Inl IndexError else Inr (butlast xs))"

text \<open>\<^verbatim>\<open>xs.pop(-2)\<close>: the removed element and the remaining list.\<close>
definition list_pop_m2 :: "'a list \<Rightarrow> error + ('a \<times> 'a list)" where
  "list_pop_m2 xs =
     (if length xs < 2 then Inl IndexError
      else Inr (xs ! (length xs - 2), take (length xs - 2) xs @ [last xs]))"

text \<open>\<^verbatim>\<open>del xs[-1]\<close>.\<close>
definition del_last :: "'a list \<Rightarrow> error + 'a list" where
  "del_last xs = (if xs = [] then Inl IndexError else Inr (butlast xs))"

text \<open>\<^verbatim>\<open>xss[i].append(x)\<close>.\<close>
definition append_at :: "'a list list \<Rightarrow> nat \<Rightarrow> 'a \<Rightarrow> error + 'a list list" where
  "append_at xss i x =
     (if i < length xss then Inr (xss[i := xss ! i @ [x]]) else Inl IndexError)"

text \<open>\<^verbatim>\<open>d[k]\<close> and \<^verbatim>\<open>del d[k]\<close> on a dict.\<close>
definition dict_get :: "('k \<rightharpoonup> 'v) \<Rightarrow> 'k \<Rightarrow> error + 'v" where
  "dict_get d k = (case d k of None \<Rightarrow> Inl KeyError | Some v \<Rightarrow> Inr v)"

definition dict_del :: "('k \<rightharpoonup> 'v) \<Rightarrow> 'k \<Rightarrow> error + ('k \<rightharpoonup> 'v)" where
  "dict_del d k = (case d k of None \<Rightarrow> Inl KeyError | Some v \<Rightarrow> Inr (d(k := None)))"

text \<open>\<^verbatim>\<open>str(n)\<close> for a non-negative integer: its decimal digits.\<close>
definition digit_char :: "nat \<Rightarrow> char" where
  "digit_char d =
     (if d = 0 then CHR ''0'' else if d = 1 then CHR ''1'' else if d = 2 then CHR ''2''
      else if d = 3 then CHR ''3'' else if d = 4 then CHR ''4'' else if d = 5 then CHR ''5''
      else if d = 6 then CHR ''6'' else if d = 7 then CHR ''7'' else if d = 8 then CHR ''8''
      else CHR ''9'')"

fun str_nat :: "nat \<Rightarrow> string" where
  "str_nat n =
     (if n < 10 then [digit_char n] else str_nat (n div 10) @ [digit_char (n mod 10)])"

declare str_nat.simps [simp del]

section \<open>Data model\<close>

text \<open>
  A topology element is the input dimension, a layer's block list, or a single
  descriptor such as \<^verbatim>\<open>('dense', output_dim)\<close>. The code appends block lists and
  dense descriptors; what the topology holds before growth starts is decided by
  \<^verbatim>\<open>misc.initialize_states\<close>.
\<close>

type_synonym layer_desc = "string \<times> nat"

datatype topo_elem = Dim nat | Blocks "layer_desc list" | Desc layer_desc

type_synonym computation = "string \<times> nat list"

text \<open>
  \<^verbatim>\<open>train_states\<close>, the pickled dict. The two snapshot keys are optional: reading a
  key that was never written raises KeyError. \<open>'w\<close> is opaque weight data, \<open>'m\<close> a
  performance measure, \<open>'h\<close> a diagnostic log.
\<close>

record ('w, 'm, 'h) train_states =
  topology :: "topo_elem list"
  weights :: "string \<rightharpoonup> 'w"
  op_set_indices :: "string \<rightharpoonup> nat"
  history :: "'h list list"
  measure_ts :: "'m list list"
  layer_iter :: nat
  block_iter :: nat
  is_finished :: bool
  block_output_weight :: "'w option"
  layer_output_weight :: "'w option"
  use_bias :: bool
  output_activation :: "string option"

record 'm params =
  max_layer :: nat
  max_block :: nat
  block_size :: nat
  input_dim :: nat
  output_dim :: nat
  direction :: string
  block_threshold :: 'm
  layer_threshold :: 'm
  convergence_measure :: string
  cluster :: bool
  search_computation :: computation
  finetune_computation :: computation

text \<open>Which of the optional validation and test sources the caller supplied.\<close>

record sources =
  has_val :: bool
  has_test :: bool

datatype source = Train | Val | Test

text \<open>\<^verbatim>\<open>self.model_data\<close>, the final model description.\<close>

record ('w, 'o) model_data =
  md_model :: string
  md_topology :: "topo_elem list"
  md_op_sets :: 'o
  md_weights :: "string \<rightharpoonup> 'w"
  md_use_bias :: bool
  md_output_activation :: "string option"

text \<open>
  The calls that leave the growth code, in the order they are made: a generator
  validated, a search run for a layer, a block trained, a checkpoint written, the
  final fine-tune, the working directory removed.
\<close>

datatype ('w, 'm, 'h) event =
    Validated source
  | Searched nat
  | Trained "string list"
  | Saved "('w, 'm, 'h) train_states"
  | Finetuned
  | Removed

text \<open>
  Everything outside \<^verbatim>\<open>train_states\<close> that the code reads or writes: the process-wide
  computation environment, the working directory
  \<^verbatim>\<open>tmp_dir/model_name\<close> with its \<^verbatim>\<open>train_states.pickle\<close>, the model object's
  \<^verbatim>\<open>model_data\<close>, and the trace of events.
\<close>

record ('w, 'm, 'h, 'o) world =
  cuda :: computation
  tmp_exists :: bool
  pickle :: "('w, 'm, 'h) train_states option"
  model_data :: "('w, 'o) model_data option"
  events :: "('w, 'm, 'h) event list"

text \<open>
  The collaborators of \<^verbatim>\<open>GOP.utility\<close> and of the base class \<^verbatim>\<open>_Model\<close>, which are
  not in the source file: parameters of the model. The data generators they receive
  are fixed for a run and are part of the collaborator. They are taken to be
  functions of their arguments that do not mutate them.
\<close>

record ('w, 'm, 'h, 'o) collab =
  check_parameters :: "'m params \<Rightarrow> error + 'm params"
  test_generator :: "source \<Rightarrow> nat \<Rightarrow> nat \<Rightarrow> error option"
  fresh_states :: "'m params \<Rightarrow> ('w, 'm, 'h) train_states"
  search_cluster :: "'m params \<Rightarrow> ('w, 'm, 'h) train_states \<Rightarrow> error + (('w \<times> 'w \<times> 'w) \<times> nat)"
  search_cpu :: "'m params \<Rightarrow> ('w, 'm, 'h) train_states \<Rightarrow> error + (('w \<times> 'w \<times> 'w) \<times> nat)"
  search_gpu :: "'m params \<Rightarrow> ('w, 'm, 'h) train_states \<Rightarrow> error + (('w \<times> 'w \<times> 'w) \<times> nat)"
  get_random_block_weights :: "'w \<times> 'w \<times> 'w \<Rightarrow> 'w \<times> 'w \<times> 'w"
  block_update :: "topo_elem list \<Rightarrow> (string \<rightharpoonup> nat) \<Rightarrow> (string \<rightharpoonup> 'w) \<Rightarrow> 'm params
                     \<Rightarrow> string list \<Rightarrow> error + ('m \<times> 'h \<times> (string \<rightharpoonup> 'w))"
  check_convergence :: "'m \<Rightarrow> 'm \<Rightarrow> string \<Rightarrow> 'm \<Rightarrow> bool"
  map_operator_from_index :: "(string \<rightharpoonup> nat) \<Rightarrow> 'o"
  finetune :: "'m params \<Rightarrow> ('w, 'o) model_data option
                 \<Rightarrow> error + (('h \<times> 'h) \<times> ('w, 'o) model_data option)"

section \<open>Keys and topology operations\<close>

text \<open>\<^verbatim>\<open>suffix = '_' + str(layer_iter) + '_' + str(block_iter)\<close>.\<close>

definition suffix :: "nat \<Rightarrow> nat \<Rightarrow> string" where
  "suffix L k = ''_'' @ str_nat L @ ''_'' @ str_nat k"

definition gop_key :: "nat \<Rightarrow> nat \<Rightarrow> string" where
  "gop_key L k = ''gop'' @ suffix L k"

definition bn_key :: "nat \<Rightarrow> nat \<Rightarrow> string" where
  "bn_key L k = ''bn'' @ suffix L k"

text \<open>\<^verbatim>\<open>e.append(x)\<close> and \<^verbatim>\<open>e.pop()\<close> on a topology element: only a list has them.\<close>

definition blocks_append :: "topo_elem \<Rightarrow> layer_desc \<Rightarrow> error + topo_elem" where
  "blocks_append e x =
     (case e of Blocks b \<Rightarrow> Inr (Blocks (b @ [x])) | Dim n \<Rightarrow> Inl AttributeError
      | Desc d \<Rightarrow> Inl AttributeError)"

definition blocks_pop :: "topo_elem \<Rightarrow> error + topo_elem" where
  "blocks_pop e =
     (case e of Blocks b \<Rightarrow> (if b = [] then Inl IndexError else Inr (Blocks (butlast b)))
      | Dim n \<Rightarrow> Inl AttributeError | Desc d \<Rightarrow> Inl AttributeError)"

text \<open>\<^verbatim>\<open>len(e)\<close>: a descriptor is a pair, an integer has no length.\<close>

definition elem_len :: "topo_elem \<Rightarrow> error + nat" where
  "elem_len e =
     (case e of Blocks b \<Rightarrow> Inr (length b) | Desc d \<Rightarrow> Inr 2 | Dim n \<Rightarrow> Inl TypeError)"

section \<open>The state store and the computation environment\<close>

text \<open>
  \<^verbatim>\<open>with open(path, 'wb') as fid: pickle.dump(train_states, fid)\<close>: fails when the
  working directory does not exist, otherwise replaces the checkpoint.
\<close>

definition dump :: "('w, 'm, 'h) train_states \<Rightarrow> ('w, 'm, 'h, 'o) world
    \<Rightarrow> (error \<times> ('w, 'm, 'h, 'o) world) + ('w, 'm, 'h, 'o) world" where
  "dump ts w =
     (if tmp_exists w then Inr (w\<lparr>pickle := Some ts, events := events w @ [Saved ts]\<rparr>)
      else Inl (IOError, w))"

text \<open>
  Modelled from the spec: \<^verbatim>\<open>misc.set_cuda_variable\<close> and
  \<^verbatim>\<open>misc.reset_cuda_variable\<close> are not under src/. The spec (4.1 step 3, 5) has the
  configured computation environment entered around each block's training call and
  restored to its prior state on exit: entering returns the prior environment as the
  status, resetting installs the status again.
\<close>

definition set_cuda_variable :: "computation \<Rightarrow> ('w, 'm, 'h, 'o) world
    \<Rightarrow> computation \<times> ('w, 'm, 'h, 'o) world" where
  "set_cuda_variable device w = (cuda w, w\<lparr>cuda := device\<rparr>)"

definition reset_cuda_variable :: "computation \<Rightarrow> ('w, 'm, 'h, 'o) world
    \<Rightarrow> ('w, 'm, 'h, 'o) world" where
  "reset_cuda_variable status w = w\<lparr>cuda := status\<rparr>"

text \<open>
  Modelled from the spec: \<^verbatim>\<open>misc.initialize_states\<close> is not under src/. The spec
  (3, Lifecycle) has TrainState created fresh or restored from the State Store at the
  start of growth; what a fresh state holds is the collaborator's \<open>fresh_states\<close>.
\<close>

definition initialize_states :: "('w, 'm, 'h, 'o) collab \<Rightarrow> 'm params
    \<Rightarrow> ('w, 'm, 'h, 'o) world \<Rightarrow> ('w, 'm, 'h) train_states" where
  "initialize_states c p w =
     (case pickle w of Some ts \<Rightarrow> ts | None \<Rightarrow> fresh_states c p)"

section \<open>The progressive growth engine\<close>

text \<open>Lines 205-212: block 0 opens a layer.\<close>

definition start_layer :: "'m params \<Rightarrow> nat \<Rightarrow> ('w, 'm, 'h) train_states
    \<Rightarrow> error + ('w, 'm, 'h) train_states" where
  "start_layer p L ts =
     bind_res (if 0 < L then list_pop (topology ts) else Inr (topology ts)) (\<lambda>t.
       Inr (ts\<lparr>topology := t @ [Blocks [], Desc (''dense'', output_dim p)],
               history := history ts @ [[]],
               measure_ts := measure_ts ts @ [[]]\<rparr>))"

text \<open>Lines 222-228: the search variant the configuration selects.\<close>

definition search_routine :: "('w, 'm, 'h, 'o) collab \<Rightarrow> 'm params
    \<Rightarrow> 'm params \<Rightarrow> ('w, 'm, 'h) train_states \<Rightarrow> error + (('w \<times> 'w \<times> 'w) \<times> nat)" where
  "search_routine c p =
     (if cluster p then search_cluster c
      else if fst (search_computation p) = ''cpu'' then search_cpu c
      else search_gpu c)"

text \<open>
  Lines 218-246: the new block's initial weights and operator-set index, from the
  search for block 0, from the previous block of the layer otherwise.
\<close>

definition propose_block :: "('w, 'm, 'h, 'o) collab \<Rightarrow> 'm params \<Rightarrow> nat \<Rightarrow> nat
    \<Rightarrow> ('w, 'm, 'h) train_states \<Rightarrow> ('w, 'm, 'h, 'o) world
    \<Rightarrow> (error \<times> ('w, 'm, 'h, 'o) world) + ((('w \<times> 'w \<times> 'w) \<times> nat) \<times> ('w, 'm, 'h, 'o) world)" where
  "propose_block c p L k ts w =
     (if k = 0 then
        bind_res (raise_in w (search_routine c p p ts)) (\<lambda>blk.
          Inr (blk, w\<lparr>events := events w @ [Searched L]\<rparr>))
      else
        raise_in w
          (bind_res (dict_get (op_set_indices ts) (gop_key L (k - 1))) (\<lambda>block_op_set_idx.
           bind_res (dict_get (weights ts) (gop_key L (k - 1))) (\<lambda>wg.
           bind_res (dict_get (weights ts) (bn_key L (k - 1))) (\<lambda>wb.
           bind_res (dict_get (weights ts) ''output'') (\<lambda>wo.
             Inr ((get_random_block_weights c (wg, wb, wo), block_op_set_idx), w)))))))"

text \<open>Lines 248-256: the new block's configuration is added.\<close>

definition add_block :: "'m params \<Rightarrow> nat \<Rightarrow> nat \<Rightarrow> ('w \<times> 'w \<times> 'w) \<times> nat
    \<Rightarrow> ('w, 'm, 'h) train_states \<Rightarrow> error + ('w, 'm, 'h) train_states" where
  "add_block p L k blk ts =
     (case blk of ((w0, w1, w2), block_op_set_idx) \<Rightarrow>
        bind_res (getitem_m2 (topology ts)) (\<lambda>e.
        bind_res (blocks_append e (''gop'', block_size p)) (\<lambda>e'.
          Inr (ts\<lparr>topology := setitem_m2 (topology ts) e',
                  op_set_indices := (op_set_indices ts)(gop_key L k \<mapsto> block_op_set_idx),
                  weights := (weights ts)(gop_key L k \<mapsto> w0, bn_key L k \<mapsto> w1,
                                          ''output'' \<mapsto> w2)\<rparr>))))"

definition block_names :: "nat \<Rightarrow> nat \<Rightarrow> string list" where
  "block_names L k = [gop_key L k, bn_key L k, ''output'']"

text \<open>
  Lines 258-282: the block is trained inside the configured computation environment;
  any exception of the training call becomes one RuntimeError, after the environment
  is reset.
\<close>

definition train_block :: "('w, 'm, 'h, 'o) collab \<Rightarrow> 'm params \<Rightarrow> nat \<Rightarrow> nat
    \<Rightarrow> ('w, 'm, 'h) train_states \<Rightarrow> ('w, 'm, 'h, 'o) world
    \<Rightarrow> (error \<times> ('w, 'm, 'h, 'o) world)
        + (('m \<times> 'h) \<times> ('w, 'm, 'h) train_states \<times> ('w, 'm, 'h, 'o) world)" where
  "train_block c p L k ts w =
     (case set_cuda_variable (finetune_computation p) w of (cuda_status, w1) \<Rightarrow>
        let w2 = w1\<lparr>events := events w1 @ [Trained (block_names L k)]\<rparr> in
        (case block_update c (topology ts) (op_set_indices ts) (weights ts) p (block_names L k) of
           Inl err \<Rightarrow>
             Inl (RuntimeError ''Fail updating block weights after randomized search'',
                  reset_cuda_variable cuda_status w2)
         | Inr (new_measure, hist, new_weights) \<Rightarrow>
             Inr ((new_measure, hist), ts\<lparr>weights := new_weights\<rparr>,
                  reset_cuda_variable cuda_status w2)))"

text \<open>Lines 288-291: the block convergence check, made for every block but the first.\<close>

definition block_converged :: "('w, 'm, 'h, 'o) collab \<Rightarrow> 'm params \<Rightarrow> nat \<Rightarrow> nat \<Rightarrow> 'm
    \<Rightarrow> ('w, 'm, 'h) train_states \<Rightarrow> error + bool" where
  "block_converged c p L k new_measure ts =
     (if 0 < k then
        bind_res (getitem (measure_ts ts) L) (\<lambda>ms.
        bind_res (getitem ms (k - 1)) (\<lambda>old_measure.
          Inr (check_convergence c new_measure old_measure (direction p) (block_threshold p))))
      else Inr False)"

text \<open>Lines 292-300: the converged block is discarded and the layer closed.\<close>

definition rollback_block :: "nat \<Rightarrow> nat \<Rightarrow> ('w, 'm, 'h) train_states
    \<Rightarrow> error + ('w, 'm, 'h) train_states" where
  "rollback_block L k ts =
     bind_res (getitem_m2 (topology ts)) (\<lambda>e.
     bind_res (blocks_pop e) (\<lambda>e'.
     bind_res (dict_del (weights ts) (gop_key L k)) (\<lambda>wts1.
     bind_res (dict_del wts1 (bn_key L k)) (\<lambda>wts2.
     bind_res (dict_del (op_set_indices ts) (gop_key L k)) (\<lambda>osi.
     bind_res (case block_output_weight ts of None \<Rightarrow> Inl KeyError | Some v \<Rightarrow> Inr v) (\<lambda>bow.
       Inr (ts\<lparr>topology := setitem_m2 (topology ts) e',
               weights := wts2(''output'' \<mapsto> bow),
               op_set_indices := osi,
               block_iter := 0,
               layer_iter := layer_iter ts + 1\<rparr>)))))))"

text \<open>
  Lines 309-314: the block is committed. Inside the loop \<open>k < max_block p\<close>, so
  \<open>max_block p - 1\<close> is the Python difference.
\<close>

definition commit_block :: "'m params \<Rightarrow> nat \<Rightarrow> nat \<Rightarrow> 'm \<Rightarrow> 'h
    \<Rightarrow> ('w, 'm, 'h) train_states \<Rightarrow> error + ('w, 'm, 'h) train_states" where
  "commit_block p L k new_measure hist ts =
     bind_res (dict_get (weights ts) ''output'') (\<lambda>out.
     bind_res (append_at (measure_ts ts) L new_measure) (\<lambda>ms.
     bind_res (append_at (history ts) L hist) (\<lambda>hs.
       Inr (ts\<lparr>block_output_weight := Some out,
               measure_ts := ms,
               history := hs,
               block_iter := (if k = max_block p - 1 then 0 else k + 1)\<rparr>))))"

text \<open>
  Lines 205-319: one pass of the block loop for layer \<open>L\<close> and block \<open>k\<close>. The
  boolean is True when the pass ends in \<^verbatim>\<open>break\<close> (block convergence).
\<close>

definition block_iteration :: "('w, 'm, 'h, 'o) collab \<Rightarrow> 'm params \<Rightarrow> nat \<Rightarrow> nat
    \<Rightarrow> ('w, 'm, 'h) train_states \<Rightarrow> ('w, 'm, 'h, 'o) world
    \<Rightarrow> (error \<times> ('w, 'm, 'h, 'o) world)
        + (bool \<times> ('w, 'm, 'h) train_states \<times> ('w, 'm, 'h, 'o) world)" where
  "block_iteration c p L k ts w =
     bind_res (raise_in w (if k = 0 then start_layer p L ts else Inr ts)) (\<lambda>ts1.
     bind_res (propose_block c p L k ts1 w) (\<lambda>(blk, w1).
     bind_res (raise_in w1 (add_block p L k blk ts1)) (\<lambda>ts2.
     bind_res (train_block c p L k ts2 w1) (\<lambda>((new_measure, hist), ts3, w2).
     bind_res (raise_in w2 (block_converged c p L k new_measure ts3)) (\<lambda>converged.
       if converged then
         bind_res (raise_in w2 (rollback_block L k ts3)) (\<lambda>ts4.
         bind_res (dump ts4 w2) (\<lambda>w3. Inr (True, ts4, w3)))
       else
         bind_res (raise_in w2 (commit_block p L k new_measure hist ts3)) (\<lambda>ts4.
         bind_res (dump ts4 w2) (\<lambda>w3. Inr (False, ts4, w3))))))))"

text \<open>
  Line 203: \<^verbatim>\<open>for block_iter in range(train_states['block_iter'], params['max_block'])\<close>.
  The range is fixed when the loop starts; the result's boolean is \<^verbatim>\<open>block_stop\<close>.
\<close>

function block_loop :: "('w, 'm, 'h, 'o) collab \<Rightarrow> 'm params \<Rightarrow> nat \<Rightarrow> nat
    \<Rightarrow> ('w, 'm, 'h) train_states \<Rightarrow> ('w, 'm, 'h, 'o) world
    \<Rightarrow> (error \<times> ('w, 'm, 'h, 'o) world)
        + (bool \<times> ('w, 'm, 'h) train_states \<times> ('w, 'm, 'h, 'o) world)" where
  "block_loop c p L k ts w =
     (if k < max_block p then
        bind_res (block_iteration c p L k ts w) (\<lambda>(stop, ts', w').
          if stop then Inr (True, ts', w') else block_loop c p L (k + 1) ts' w')
      else Inr (False, ts, w))"
  by pat_completeness auto
termination
  by (relation "measure (\<lambda>(c, p, L, k, ts, w). max_block p - k)") auto

declare block_loop.simps [simp del]

text \<open>Lines 330-333: the keys of the rejected layer's blocks are deleted.\<close>

fun del_block_keys :: "nat \<Rightarrow> nat list \<Rightarrow> (string \<rightharpoonup> 'w) \<times> (string \<rightharpoonup> nat)
    \<Rightarrow> error + ((string \<rightharpoonup> 'w) \<times> (string \<rightharpoonup> nat))" where
  "del_block_keys L [] d = Inr d"
| "del_block_keys L (idx # idxs) d =
     bind_res (dict_del (fst d) (gop_key L idx)) (\<lambda>wts1.
     bind_res (dict_del wts1 (bn_key L idx)) (\<lambda>wts2.
     bind_res (dict_del (snd d) (gop_key L idx)) (\<lambda>osi.
       del_block_keys L idxs (wts2, osi))))"

text \<open>Lines 327-336: the layer just added is removed.\<close>

definition rollback_layer :: "nat \<Rightarrow> ('w, 'm, 'h) train_states
    \<Rightarrow> error + ('w, 'm, 'h) train_states" where
  "rollback_layer L ts =
     bind_res (list_pop_m2 (topology ts)) (\<lambda>(e, t).
     bind_res (elem_len e) (\<lambda>no_blocks.
     bind_res (del_block_keys L [0..<no_blocks] (weights ts, op_set_indices ts)) (\<lambda>(wts, osi).
     bind_res (case layer_output_weight ts of None \<Rightarrow> Inl KeyError | Some v \<Rightarrow> Inr v) (\<lambda>low.
     bind_res (del_last (history ts)) (\<lambda>hs.
       Inr (ts\<lparr>topology := t,
               weights := wts(''output'' \<mapsto> low),
               op_set_indices := osi,
               history := hs\<rparr>))))))"

text \<open>
  Lines 321-338: the layer convergence check, made for every layer but the first.
  The boolean is True when the layer is rejected and the layer loop ends in
  \<^verbatim>\<open>break\<close>.
\<close>

definition close_layer :: "('w, 'm, 'h, 'o) collab \<Rightarrow> 'm params \<Rightarrow> nat
    \<Rightarrow> ('w, 'm, 'h) train_states \<Rightarrow> error + (bool \<times> ('w, 'm, 'h) train_states)" where
  "close_layer c p L ts =
     (if 0 < L then
        bind_res (getitem (measure_ts ts) L) (\<lambda>ms.
        bind_res (getitem_last ms) (\<lambda>new_measure.
        bind_res (getitem (measure_ts ts) (L - 1)) (\<lambda>ms'.
        bind_res (getitem_last ms') (\<lambda>old_measure.
          if check_convergence c new_measure old_measure (direction p) (layer_threshold p)
          then bind_res (rollback_layer L ts) (\<lambda>ts'. Inr (True, ts'))
          else Inr (False, ts)))))
      else Inr (False, ts))"

text \<open>Lines 340-344: the layer is accepted.\<close>

definition accept_layer :: "bool \<Rightarrow> ('w, 'm, 'h) train_states
    \<Rightarrow> error + ('w, 'm, 'h) train_states" where
  "accept_layer block_stop ts =
     (let ts1 = (if \<not> block_stop then ts\<lparr>layer_iter := layer_iter ts + 1\<rparr> else ts) in
      bind_res (dict_get (weights ts1) ''output'') (\<lambda>out.
        Inr (ts1\<lparr>layer_output_weight := Some out\<rparr>)))"

text \<open>Lines 202-344: one pass of the layer loop for layer \<open>L\<close>.\<close>

definition layer_iteration :: "('w, 'm, 'h, 'o) collab \<Rightarrow> 'm params \<Rightarrow> nat
    \<Rightarrow> ('w, 'm, 'h) train_states \<Rightarrow> ('w, 'm, 'h, 'o) world
    \<Rightarrow> (error \<times> ('w, 'm, 'h, 'o) world)
        + (bool \<times> ('w, 'm, 'h) train_states \<times> ('w, 'm, 'h, 'o) world)" where
  "layer_iteration c p L ts w =
     bind_res (block_loop c p L (block_iter ts) ts w) (\<lambda>(block_stop, ts1, w1).
     bind_res (raise_in w1 (close_layer c p L ts1)) (\<lambda>(rejected, ts2).
       if rejected then Inr (True, ts2, w1)
       else bind_res (raise_in w1 (accept_layer block_stop ts2)) (\<lambda>ts3.
              Inr (False, ts3, w1))))"

text \<open>
  Line 201: \<^verbatim>\<open>for layer_iter in range(train_states['layer_iter'], params['max_layer'])\<close>.
  The boolean is True when the loop was left by the layer rollback's \<^verbatim>\<open>break\<close>.
\<close>

function layer_loop :: "('w, 'm, 'h, 'o) collab \<Rightarrow> 'm params \<Rightarrow> nat
    \<Rightarrow> ('w, 'm, 'h) train_states \<Rightarrow> ('w, 'm, 'h, 'o) world
    \<Rightarrow> (error \<times> ('w, 'm, 'h, 'o) world)
        + (bool \<times> ('w, 'm, 'h) train_states \<times> ('w, 'm, 'h, 'o) world)" where
  "layer_loop c p L ts w =
     (if L < max_layer p then
        bind_res (layer_iteration c p L ts w) (\<lambda>(rejected, ts', w').
          if rejected then Inr (True, ts', w') else layer_loop c p (L + 1) ts' w')
      else Inr (False, ts, w))"
  by pat_completeness auto
termination
  by (relation "measure (\<lambda>(c, p, L, ts, w). max_layer p - L)") auto

declare layer_loop.simps [simp del]

text \<open>Lines 200-349: growth, unless the restored state is already finished.\<close>

definition grow :: "('w, 'm, 'h, 'o) collab \<Rightarrow> 'm params
    \<Rightarrow> ('w, 'm, 'h) train_states \<Rightarrow> ('w, 'm, 'h, 'o) world
    \<Rightarrow> (error \<times> ('w, 'm, 'h, 'o) world)
        + (('w, 'm, 'h) train_states \<times> ('w, 'm, 'h, 'o) world)" where
  "grow c p ts w =
     (if \<not> is_finished ts then
        bind_res (layer_loop c p (layer_iter ts) ts w) (\<lambda>(rejected, ts1, w1).
          let ts2 = ts1\<lparr>is_finished := True\<rparr> in
          bind_res (dump ts2 w1) (\<lambda>w2. Inr (ts2, w2)))
      else Inr (ts, w))"

text \<open>Lines 192-196: every supplied generator is checked against the dimensions.\<close>

definition validate_one :: "('w, 'm, 'h, 'o) collab \<Rightarrow> 'm params \<Rightarrow> source
    \<Rightarrow> ('w, 'm, 'h, 'o) world \<Rightarrow> (error \<times> ('w, 'm, 'h, 'o) world) + ('w, 'm, 'h, 'o) world" where
  "validate_one c p src w =
     (case test_generator c src (input_dim p) (output_dim p) of
        Some err \<Rightarrow> Inl (err, w)
      | None \<Rightarrow> Inr (w\<lparr>events := events w @ [Validated src]\<rparr>))"

definition validate :: "('w, 'm, 'h, 'o) collab \<Rightarrow> 'm params \<Rightarrow> sources
    \<Rightarrow> ('w, 'm, 'h, 'o) world \<Rightarrow> (error \<times> ('w, 'm, 'h, 'o) world) + ('w, 'm, 'h, 'o) world" where
  "validate c p d w =
     bind_res (validate_one c p Train w) (\<lambda>w1.
     bind_res (if has_val d then validate_one c p Val w1 else Inr w1) (\<lambda>w2.
       if has_test d then validate_one c p Test w2 else Inr w2))"

text \<open>Lines 351-359: the final model description.\<close>

definition assemble :: "('w, 'm, 'h, 'o) collab \<Rightarrow> ('w, 'm, 'h) train_states
    \<Rightarrow> ('w, 'o) model_data" where
  "assemble c ts =
     \<lparr>md_model = ''HoMLGOP'',
      md_topology = topology ts,
      md_op_sets = map_operator_from_index c (op_set_indices ts),
      md_weights = weights ts,
      md_use_bias = use_bias ts,
      md_output_activation = output_activation ts\<rparr>"

text \<open>
  Lines 174-364, \<^verbatim>\<open>progressive_learn\<close>: returns \<^verbatim>\<open>train_states['history']\<close>. The
  convergence measure's name is prefixed for the run (lines 186-190).
\<close>

definition progressive_learn :: "('w, 'm, 'h, 'o) collab \<Rightarrow> 'm params \<Rightarrow> sources
    \<Rightarrow> ('w, 'm, 'h, 'o) world
    \<Rightarrow> (error \<times> ('w, 'm, 'h, 'o) world) + ('h list list \<times> ('w, 'm, 'h, 'o) world)" where
  "progressive_learn c p d w =
     bind_res (raise_in w (check_parameters c p)) (\<lambda>p0.
       let p1 = p0\<lparr>convergence_measure :=
                    (if has_val d then ''val_'' else ''train_'') @ convergence_measure p0\<rparr> in
       bind_res (validate c p1 d w) (\<lambda>w1.
       bind_res (grow c p1 (initialize_states c p1 w1) w1) (\<lambda>(ts, w2).
         Inr (history ts, w2\<lparr>model_data := Some (assemble c ts)\<rparr>))))"

text \<open>Lines 160-167: the fine-tune of the base class, on the model object.\<close>

definition run_finetune :: "('w, 'm, 'h, 'o) collab \<Rightarrow> 'm params
    \<Rightarrow> ('w, 'm, 'h, 'o) world
    \<Rightarrow> (error \<times> ('w, 'm, 'h, 'o) world) + (('h \<times> 'h) \<times> ('w, 'm, 'h, 'o) world)" where
  "run_finetune c p w =
     (case finetune c p (model_data w) of
        Inl err \<Rightarrow> Inl (err, w)
      | Inr (res, md) \<Rightarrow> Inr (res, w\<lparr>model_data := md, events := events w @ [Finetuned]\<rparr>))"

text \<open>Lines 169-170: \<^verbatim>\<open>shutil.rmtree\<close> of the working directory, when it exists.\<close>

definition remove_tmp :: "('w, 'm, 'h, 'o) world \<Rightarrow> ('w, 'm, 'h, 'o) world" where
  "remove_tmp w =
     (if tmp_exists w
      then w\<lparr>tmp_exists := False, pickle := None, events := events w @ [Removed]\<rparr>
      else w)"

text \<open>
  Lines 135-172, \<^verbatim>\<open>fit\<close>: returns \<^verbatim>\<open>performance, p_history, f_history\<close>, where
  \<^verbatim>\<open>f_history, performance\<close> is what the fine-tune returned.
\<close>

definition fit :: "('w, 'm, 'h, 'o) collab \<Rightarrow> 'm params \<Rightarrow> sources
    \<Rightarrow> ('w, 'm, 'h, 'o) world
    \<Rightarrow> (error \<times> ('w, 'm, 'h, 'o) world)
        + (('h \<times> 'h list list \<times> 'h) \<times> ('w, 'm, 'h, 'o) world)" where
  "fit c p d w =
     bind_res (progressive_learn c p d w) (\<lambda>(p_history, w1).
     bind_res (run_finetune c p w1) (\<lambda>((f_history, performance), w2).
       Inr ((performance, p_history, f_history), remove_tmp w2)))"

section \<open>Specification predicates and concrete runs\<close>

definition trains_only_named :: "('w, 'm, 'h, 'o) collab \<Rightarrow> bool" where
  "trains_only_named c \<longleftrightarrow>
     (\<forall>t osi W p names m h W'. block_update c t osi W p names = Inr (m, h, W') \<longrightarrow>
        (\<forall>key. key \<notin> set names \<longrightarrow> W' key = W key))"

fun total_blocks :: "topo_elem list \<Rightarrow> nat" where
  "total_blocks [] = 0"
| "total_blocks (Blocks b # t) = length b + total_blocks t"
| "total_blocks (e # t) = total_blocks t"

definition demo_fresh :: "int params \<Rightarrow> (nat, int, nat) train_states" where
  "demo_fresh p =
     \<lparr>topology = [Dim (input_dim p)], weights = Map.empty, op_set_indices = Map.empty,
      history = [], measure_ts = [], layer_iter = 0, block_iter = 0, is_finished = False,
      block_output_weight = None, layer_output_weight = None, use_bias = True,
      output_activation = None\<rparr>"

definition demo_collab :: "(nat, int, nat, unit) collab" where
  "demo_collab =
     \<lparr>check_parameters = Inr,
      test_generator = (\<lambda>src i j. None),
      fresh_states = demo_fresh,
      search_cluster = (\<lambda>p ts. Inr ((1, 2, 3), 3)),
      search_cpu = (\<lambda>p ts. Inr ((1, 2, 3), 3)),
      search_gpu = (\<lambda>p ts. Inr ((1, 2, 3), 3)),
      get_random_block_weights = (\<lambda>(a, b, c). (a + 10, b + 10, c + 10)),
      block_update = (\<lambda>t osi W p names. Inr (100 - 10 * int (total_blocks t), 7, W)),
      check_convergence = (\<lambda>new old dir thr. old - new < thr),
      map_operator_from_index = (\<lambda>osi. ()),
      finetune = (\<lambda>p md. Inr ((8, 9), md))\<rparr>"

definition demo_params :: "nat \<Rightarrow> nat \<Rightarrow> int \<Rightarrow> int \<Rightarrow> int params" where
  "demo_params ml mb bt lt =
     \<lparr>max_layer = ml, max_block = mb, block_size = 20, input_dim = 4, output_dim = 3,
      direction = ''lower'', block_threshold = bt, layer_threshold = lt,
      convergence_measure = ''mse'', cluster = False, search_computation = (''cpu'', [8]),
      finetune_computation = (''cpu'', [8])\<rparr>"

definition demo_world :: "(nat, int, nat, unit) world" where
  "demo_world =
     \<lparr>cuda = (''gpu'', [0]), tmp_exists = True, pickle = None, model_data = None, events = []\<rparr>"

definition demo_block0 :: "(nat, int, nat) train_states" where
  "demo_block0 =
     \<lparr>topology = [Dim 4, Blocks [(''gop'', 20)], Desc (''dense'', 3)],
      weights = [''gop_0_0'' \<mapsto> 1, ''bn_0_0'' \<mapsto> 2, ''output'' \<mapsto> 3],
      op_set_indices = [''gop_0_0'' \<mapsto> 3],
      history = [[7]], measure_ts = [[90]], layer_iter = 0, block_iter = 1,
      is_finished = False, block_output_weight = Some 3, layer_output_weight = None,
      use_bias = True, output_activation = None\<rparr>"




fun saved_of :: "('w, 'm, 'h) event \<Rightarrow> ('w, 'm, 'h) train_states list" where
  "saved_of (Saved s) = [s]"
| "saved_of e = []"

definition checkpoints :: "('w, 'm, 'h, 'o) world \<Rightarrow> ('w, 'm, 'h) train_states list" where
  "checkpoints w = concat (map saved_of (events w))"

definition demo_always_converge :: "(nat, int, nat, unit) collab" where
  "demo_always_converge = demo_collab\<lparr>check_convergence := (\<lambda>new old dir thr. True)\<rparr>"

definition demo_failing :: "(nat, int, nat, unit) collab" where
  "demo_failing =
     demo_collab\<lparr>block_update :=
       (\<lambda>t osi W p names. Inl (CollaboratorError ''out of memory''))\<rparr>"

definition demo_first_layer ::
  "(error \<times> (nat, int, nat, unit) world)
   + (bool \<times> (nat, int, nat) train_states \<times> (nat, int, nat, unit) world)" where
  "demo_first_layer =
     layer_iteration demo_always_converge (demo_params 2 2 5 5) 0
       (demo_fresh (demo_params 2 2 5 5)) demo_world"



definition layer_grown :: "('w, 'm, 'h, 'o) collab \<Rightarrow> 'm params \<Rightarrow> nat
    \<Rightarrow> ('w, 'm, 'h) train_states \<Rightarrow> nat \<Rightarrow> bool \<Rightarrow> ('w, 'm, 'h) train_states \<Rightarrow> bool" where
  "layer_grown c p L s n stop ts \<longleftrightarrow>
     (\<exists>s1 bw idx.
        start_layer p L s = Inr s1 \<and> search_routine c p p s1 = Inr (bw, idx) \<and>
        topology ts = (if 0 < L then butlast (topology s) else topology s)
                        @ [Blocks (replicate n (''gop'', block_size p)),
                           Desc (''dense'', output_dim p)] \<and>
        (\<forall>j<n. op_set_indices ts (gop_key L j) = Some idx) \<and>
        (\<forall>key. (\<forall>j<n. key \<noteq> gop_key L j) \<longrightarrow>
           op_set_indices ts key = op_set_indices s key \<or>
           op_set_indices ts key = None \<and> (\<exists>j. key = gop_key L j)) \<and>
        length (history ts) = length (history s) + 1 \<and>
        length (measure_ts ts) = length (measure_ts s) + 1 \<and>
        layer_iter ts = layer_iter s + (if stop then 1 else 0) \<and>
        block_iter ts = (if stop \<or> n = max_block p then 0 else n) \<and>
        layer_output_weight ts = layer_output_weight s \<and>
        is_finished ts = is_finished s)"

definition demo_two_blocks ::
  "(error \<times> (nat, int, nat, unit) world)
   + (bool \<times> (nat, int, nat) train_states \<times> (nat, int, nat, unit) world)" where
  "demo_two_blocks =
     block_loop demo_collab (demo_params 1 2 5 5) 0 0 (demo_fresh (demo_params 1 2 5 5)) demo_world"

definition topology_length_ok :: "nat \<Rightarrow> ('w, 'm, 'h) train_states \<Rightarrow> bool" where
  "topology_length_ok n0 s \<longleftrightarrow>
     length (topology s) = n0 + (if history s = [] then 0 else 1 + length (history s))"



definition demo_grow_1x1 ::
  "(error \<times> (nat, int, nat, unit) world)
   + ((nat, int, nat) train_states \<times> (nat, int, nat, unit) world)" where
  "demo_grow_1x1 =
     grow demo_collab (demo_params 1 1 5 5) (demo_fresh (demo_params 1 1 5 5)) demo_world"

definition demo_grow_2x1 ::
  "(error \<times> (nat, int, nat, unit) world)
   + ((nat, int, nat) train_states \<times> (nat, int, nat, unit) world)" where
  "demo_grow_2x1 =
     grow demo_collab (demo_params 2 1 5 5) (demo_fresh (demo_params 2 1 5 5)) demo_world"

definition demo_grow_empty_2x1 ::
  "(error \<times> (nat, int, nat, unit) world)
   + ((nat, int, nat) train_states \<times> (nat, int, nat, unit) world)" where
  "demo_grow_empty_2x1 =
     grow demo_collab (demo_params 2 1 5 5)
       ((demo_fresh (demo_params 2 1 5 5))\<lparr>topology := []\<rparr>) demo_world"

definition demo_layer0_closed :: "(nat, int, nat) train_states" where
  "demo_layer0_closed =
     \<lparr>topology = [Dim 4, Blocks [(''gop'', 20)], Desc (''dense'', 3)],
      weights = [''gop_0_0'' \<mapsto> 1, ''bn_0_0'' \<mapsto> 2, ''output'' \<mapsto> 3],
      op_set_indices = [''gop_0_0'' \<mapsto> 3],
      history = [[7]], measure_ts = [[90]], layer_iter = 1, block_iter = 0,
      is_finished = False, block_output_weight = Some 3, layer_output_weight = Some 3,
      use_bias = True, output_activation = None\<rparr>"

definition demo_layer1_grown :: "(nat, int, nat) train_states" where
  "demo_layer1_grown =
     \<lparr>topology = [Dim 4, Blocks [(''gop'', 20)], Blocks [(''gop'', 20)], Desc (''dense'', 3)],
      weights = [''gop_0_0'' \<mapsto> 1, ''bn_0_0'' \<mapsto> 2, ''gop_1_0'' \<mapsto> 1, ''bn_1_0'' \<mapsto> 2,
                 ''output'' \<mapsto> 3],
      op_set_indices = [''gop_0_0'' \<mapsto> 3, ''gop_1_0'' \<mapsto> 3],
      history = [[7], [7]], measure_ts = [[90], [80]], layer_iter = 1, block_iter = 0,
      is_finished = False, block_output_weight = Some 3, layer_output_weight = Some 3,
      use_bias = True, output_activation = None\<rparr>"

definition demo_reject_iteration ::
  "(error \<times> (nat, int, nat, unit) world)
   + (bool \<times> (nat, int, nat) train_states \<times> (nat, int, nat, unit) world)" where
  "demo_reject_iteration =
     layer_iteration demo_collab (demo_params 2 1 5 20) 1 demo_layer0_closed demo_world"

definition demo_reject_run ::
  "(error \<times> (nat, int, nat, unit) world)
   + (bool \<times> (nat, int, nat) train_states \<times> (nat, int, nat, unit) world)" where
  "demo_reject_run =
     layer_loop demo_collab (demo_params 2 1 5 20) 0 (demo_fresh (demo_params 2 1 5 20)) demo_world"



definition outcome_world ::
  "(error \<times> ('w, 'm, 'h, 'o) world) + ('a \<times> ('w, 'm, 'h, 'o) world) \<Rightarrow> ('w, 'm, 'h, 'o) world" where
  "outcome_world r = (case r of Inl (e, w) \<Rightarrow> w | Inr (x, w) \<Rightarrow> w)"

definition saved_all :: "(('w, 'm, 'h) train_states \<Rightarrow> bool) \<Rightarrow> ('w, 'm, 'h, 'o) world
    \<Rightarrow> ('w, 'm, 'h, 'o) world \<Rightarrow> bool" where
  "saved_all P w0 w \<longleftrightarrow> (\<exists>ss. checkpoints w = checkpoints w0 @ ss \<and> (\<forall>x\<in>set ss. P x))"

definition resumable :: "nat \<Rightarrow> 'm params \<Rightarrow> ('w, 'm, 'h) train_states \<Rightarrow> bool" where
  "resumable n0 p s \<longleftrightarrow>
     block_iter s < max_block p \<and> topology_length_ok n0 s \<and>
     length (history s) = layer_iter s + (if block_iter s = 0 then 0 else 1)"





definition demo_fail_fourth :: "(nat, int, nat, unit) collab" where
  "demo_fail_fourth =
     demo_collab\<lparr>block_update :=
       (\<lambda>t osi W p names. if total_blocks t = 4 then Inl (CollaboratorError ''out of memory'')
                           else Inr (100 - 10 * int (total_blocks t), 7, W))\<rparr>"

definition demo_abort_run ::
  "(error \<times> (nat, int, nat, unit) world)
   + ((nat, int, nat) train_states \<times> (nat, int, nat, unit) world)" where
  "demo_abort_run =
     grow demo_fail_fourth (demo_params 2 2 5 5) (demo_fresh (demo_params 2 2 5 5)) demo_world"

definition demo_resumed_mid ::
  "(error \<times> (nat, int, nat, unit) world)
   + ((nat, int, nat) train_states \<times> (nat, int, nat, unit) world)" where
  "demo_resumed_mid = grow demo_collab (demo_params 1 2 5 5) demo_block0 demo_world"

definition resume_from :: "('w, 'm, 'h, 'o) collab \<Rightarrow> 'm params \<Rightarrow> ('w, 'm, 'h) train_states
    \<Rightarrow> ('w, 'm, 'h, 'o) world
    \<Rightarrow> (error \<times> ('w, 'm, 'h, 'o) world) + (('w, 'm, 'h) train_states \<times> ('w, 'm, 'h, 'o) world)" where
  "resume_from c p s w =
     grow c p (initialize_states c p (w\<lparr>pickle := Some s\<rparr>)) (w\<lparr>pickle := Some s\<rparr>)"

definition demo_saved_1x1 :: "(nat, int, nat) train_states" where
  "demo_saved_1x1 = checkpoints (outcome_world demo_grow_1x1) ! 0"

definition demo_resumed_1x1 ::
  "(error \<times> (nat, int, nat, unit) world)
   + ((nat, int, nat) train_states \<times> (nat, int, nat, unit) world)" where
  "demo_resumed_1x1 = resume_from demo_collab (demo_params 1 1 5 5) demo_saved_1x1 demo_world"

definition demo_search_by_size :: "(nat, int, nat, unit) collab" where
  "demo_search_by_size =
     demo_collab\<lparr>
       search_cpu := (\<lambda>p ts. Inr ((1, 2, 3), if total_blocks (topology ts) = 0 then 3 else 5)),
       block_update := (\<lambda>t osi W p names.
          Inr (if total_blocks t \<le> 3 then 100 - 10 * int (total_blocks t) else 88, 7, W))\<rparr>"

definition demo_grow_1x3 ::
  "(error \<times> (nat, int, nat, unit) world)
   + ((nat, int, nat) train_states \<times> (nat, int, nat, unit) world)" where
  "demo_grow_1x3 =
     grow demo_search_by_size (demo_params 1 3 5 5) (demo_fresh (demo_params 1 3 5 5)) demo_world"

definition demo_saved_1x3 :: "(nat, int, nat) train_states" where
  "demo_saved_1x3 = checkpoints (outcome_world demo_grow_1x3) ! 2"

definition demo_resumed_1x3 ::
  "(error \<times> (nat, int, nat, unit) world)
   + ((nat, int, nat) train_states \<times> (nat, int, nat, unit) world)" where
  "demo_resumed_1x3 =
     resume_from demo_search_by_size (demo_params 1 3 5 5) demo_saved_1x3 demo_world"

definition demo_grow_2x1_reject ::
  "(error \<times> (nat, int, nat, unit) world)
   + ((nat, int, nat) train_states \<times> (nat, int, nat, unit) world)" where
  "demo_grow_2x1_reject =
     grow demo_collab (demo_params 2 1 5 20) (demo_fresh (demo_params 2 1 5 20)) demo_world"

definition demo_saved_2x1 :: "(nat, int, nat) train_states" where
  "demo_saved_2x1 = checkpoints (outcome_world demo_grow_2x1_reject) ! 0"

definition demo_resumed_2x1 ::
  "(error \<times> (nat, int, nat, unit) world)
   + ((nat, int, nat) train_states \<times> (nat, int, nat, unit) world)" where
  "demo_resumed_2x1 = resume_from demo_collab (demo_params 2 1 5 20) demo_saved_2x1 demo_world"

section \<open>Basic facts\<close>

lemma bind_res_Inr_iff: "bind_res m f = Inr y \<longleftrightarrow> (\<exists>x. m = Inr x \<and> f x = Inr y)"
  by (cases m) (simp_all add: bind_res_def)

lemma bind_res_Inl_iff:
  "bind_res m f = Inl e \<longleftrightarrow> m = Inl e \<or> (\<exists>x. m = Inr x \<and> f x = Inl e)"
  by (cases m) (simp_all add: bind_res_def)

lemma bind_res_simps [simp]: "bind_res (Inr x) f = f x" "bind_res (Inl e) f = Inl e"
  by (simp_all add: bind_res_def)

lemma raise_in_simps [simp]: "raise_in w (Inr x) = Inr x" "raise_in w (Inl e) = Inl (e, w)"
  by (simp_all add: raise_in_def)

lemma raise_in_Inr_iff [simp]: "raise_in w m = Inr x \<longleftrightarrow> m = Inr x"
  by (cases m) simp_all

lemma raise_in_Inl_iff: "raise_in w m = Inl ew \<longleftrightarrow> (\<exists>e. m = Inl e \<and> ew = (e, w))"
  by (cases m) auto

lemma digit_char_inj: "d < 10 \<Longrightarrow> e < 10 \<Longrightarrow> digit_char d = digit_char e \<Longrightarrow> d = e"
  unfolding digit_char_def by (simp split: if_splits; arith)

lemma digit_char_not_underscore: "digit_char d \<noteq> CHR ''_''"
  by (simp add: digit_char_def)

lemma str_nat_no_underscore: "CHR ''_'' \<notin> set (str_nat n)"
proof (induction n rule: str_nat.induct)
  case (1 n)
  show ?case
  proof (cases "n < 10")
    case True
    then show ?thesis using digit_char_not_underscore [of n]
      by (subst str_nat.simps) auto
  next
    case False
    then show ?thesis using 1 digit_char_not_underscore [of "n mod 10"]
      by (subst str_nat.simps) auto
  qed
qed

lemma str_nat_nonempty: "str_nat n \<noteq> []"
  by (subst str_nat.simps) simp

lemma str_nat_inj: "str_nat m = str_nat n \<Longrightarrow> m = n"
proof (induction m arbitrary: n rule: str_nat.induct)
  case (1 m)
  show ?case
  proof (cases "m < 10")
    case mlt: True
    show ?thesis
    proof (cases "n < 10")
      case True
      with mlt 1(2) show ?thesis
        by (simp add: str_nat.simps [of m] str_nat.simps [of n] digit_char_inj)
    next
      case False
      with mlt 1(2) str_nat_nonempty [of "n div 10"] show ?thesis
        by (simp add: str_nat.simps [of m] str_nat.simps [of n])
    qed
  next
    case mge: False
    show ?thesis
    proof (cases "n < 10")
      case True
      with mge 1(2) str_nat_nonempty [of "m div 10"] show ?thesis
        by (simp add: str_nat.simps [of m] str_nat.simps [of n])
    next
      case False
      with mge 1(2) have eq: "str_nat (m div 10) = str_nat (n div 10)"
        and d: "digit_char (m mod 10) = digit_char (n mod 10)"
        by (simp_all add: str_nat.simps [of m] str_nat.simps [of n])
      from 1(1) [OF mge eq] have "m div 10 = n div 10" .
      moreover from d have "m mod 10 = n mod 10"
        by (intro digit_char_inj) simp_all
      ultimately show ?thesis
        by (metis div_mult_mod_eq)
    qed
  qed
qed

lemma split_at_underscore:
  assumes "a @ CHR ''_'' # b = a' @ CHR ''_'' # b'"
    and "CHR ''_'' \<notin> set a" and "CHR ''_'' \<notin> set a'"
  shows "a = a' \<and> b = b'"
  using assms
proof (induction a arbitrary: a')
  case Nil
  then show ?case by (cases a') auto
next
  case (Cons x a)
  then show ?case by (cases a') auto
qed

lemma suffix_inj: "suffix L k = suffix L' k' \<longleftrightarrow> L = L' \<and> k = k'"
proof
  assume "suffix L k = suffix L' k'"
  then have "str_nat L @ CHR ''_'' # str_nat k = str_nat L' @ CHR ''_'' # str_nat k'"
    by (simp add: suffix_def)
  from split_at_underscore [OF this str_nat_no_underscore str_nat_no_underscore]
  show "L = L' \<and> k = k'" by (auto dest: str_nat_inj)
qed simp

lemma gop_key_inj [simp]: "gop_key L k = gop_key L' k' \<longleftrightarrow> L = L' \<and> k = k'"
  by (simp add: gop_key_def suffix_inj)

lemma bn_key_inj [simp]: "bn_key L k = bn_key L' k' \<longleftrightarrow> L = L' \<and> k = k'"
  by (simp add: bn_key_def suffix_inj)

lemma key_distinct [simp]:
  "gop_key L k \<noteq> bn_key L' k'" "bn_key L' k' \<noteq> gop_key L k"
  "gop_key L k \<noteq> ''output''" "''output'' \<noteq> gop_key L k"
  "bn_key L k \<noteq> ''output''" "''output'' \<noteq> bn_key L k"
  by (auto simp: gop_key_def bn_key_def suffix_def)

lemma start_layer_Inr:
  "start_layer p L ts = Inr ts' \<longleftrightarrow>
     (0 < L \<longrightarrow> topology ts \<noteq> []) \<and>
     ts' = ts\<lparr>topology := (if 0 < L then butlast (topology ts) else topology ts)
                             @ [Blocks [], Desc (''dense'', output_dim p)],
               history := history ts @ [[]],
               measure_ts := measure_ts ts @ [[]]\<rparr>"
  by (auto simp: start_layer_def list_pop_def)

lemma add_block_Inr:
  "add_block p L k ((w0, w1, w2), idx) ts = Inr ts' \<longleftrightarrow>
     (\<exists>b. 2 \<le> length (topology ts) \<and> topology ts ! (length (topology ts) - 2) = Blocks b \<and>
        ts' = ts\<lparr>topology := (topology ts)[length (topology ts) - 2 :=
                                  Blocks (b @ [(''gop'', block_size p)])],
                  op_set_indices := (op_set_indices ts)(gop_key L k \<mapsto> idx),
                  weights := (weights ts)(gop_key L k \<mapsto> w0, bn_key L k \<mapsto> w1,
                                          ''output'' \<mapsto> w2)\<rparr>)"
  by (auto simp: add_block_def getitem_m2_def setitem_m2_def blocks_append_def
      bind_res_Inr_iff split: topo_elem.splits)

lemma train_block_Inr:
  "train_block c p L k ts w = Inr ((m, h), ts', w') \<longleftrightarrow>
     (\<exists>W. block_update c (topology ts) (op_set_indices ts) (weights ts) p (block_names L k)
            = Inr (m, h, W) \<and>
          ts' = ts\<lparr>weights := W\<rparr> \<and>
          w' = w\<lparr>events := events w @ [Trained (block_names L k)]\<rparr>)"
  by (auto simp: train_block_def set_cuda_variable_def reset_cuda_variable_def Let_def
      split: sum.splits)

lemma train_block_Inl:
  "train_block c p L k ts w = Inl (e, w') \<longleftrightarrow>
     (\<exists>err. block_update c (topology ts) (op_set_indices ts) (weights ts) p (block_names L k)
            = Inl err) \<and>
     e = RuntimeError ''Fail updating block weights after randomized search'' \<and>
     w' = w\<lparr>events := events w @ [Trained (block_names L k)]\<rparr>"
  by (auto simp: train_block_def set_cuda_variable_def reset_cuda_variable_def Let_def
      split: sum.splits)

lemma block_converged_Inr:
  "block_converged c p L k m ts = Inr b \<longleftrightarrow>
     (if 0 < k then L < length (measure_ts ts) \<and> k - 1 < length (measure_ts ts ! L) \<and>
        b = check_convergence c m (measure_ts ts ! L ! (k - 1)) (direction p) (block_threshold p)
      else \<not> b)"
  by (auto simp: block_converged_def getitem_def bind_res_Inr_iff)

lemma rollback_block_Inr:
  "rollback_block L k ts = Inr ts' \<longleftrightarrow>
     (\<exists>b bow. 2 \<le> length (topology ts) \<and> topology ts ! (length (topology ts) - 2) = Blocks b \<and>
        b \<noteq> [] \<and> weights ts (gop_key L k) \<noteq> None \<and> weights ts (bn_key L k) \<noteq> None \<and>
        op_set_indices ts (gop_key L k) \<noteq> None \<and> block_output_weight ts = Some bow \<and>
        ts' = ts\<lparr>topology := (topology ts)[length (topology ts) - 2 := Blocks (butlast b)],
                  weights := (weights ts)(gop_key L k := None, bn_key L k := None,
                                          ''output'' \<mapsto> bow),
                  op_set_indices := (op_set_indices ts)(gop_key L k := None),
                  block_iter := 0,
                  layer_iter := layer_iter ts + 1\<rparr>)"
  by (auto simp: rollback_block_def getitem_m2_def setitem_m2_def blocks_pop_def dict_del_def
      bind_res_Inr_iff split: topo_elem.splits option.splits if_splits)

lemma commit_block_Inr:
  "commit_block p L k m h ts = Inr ts' \<longleftrightarrow>
     (\<exists>out. weights ts ''output'' = Some out \<and> L < length (measure_ts ts) \<and>
        L < length (history ts) \<and>
        ts' = ts\<lparr>block_output_weight := Some out,
                  measure_ts := (measure_ts ts)[L := measure_ts ts ! L @ [m]],
                  history := (history ts)[L := history ts ! L @ [h]],
                  block_iter := (if k = max_block p - 1 then 0 else k + 1)\<rparr>)"
  by (auto simp: commit_block_def dict_get_def append_at_def bind_res_Inr_iff
      split: option.splits)

lemma dump_Inr:
  "dump ts w = Inr w' \<longleftrightarrow>
     tmp_exists w \<and> w' = w\<lparr>pickle := Some ts, events := events w @ [Saved ts]\<rparr>"
  by (auto simp: dump_def)

lemma propose_block_Inr:
  "propose_block c p L k ts w = Inr (blk, w') \<longleftrightarrow>
     (if k = 0 then search_routine c p p ts = Inr blk \<and>
                    w' = w\<lparr>events := events w @ [Searched L]\<rparr>
      else \<exists>idx wg wb wo. op_set_indices ts (gop_key L (k - 1)) = Some idx \<and>
             weights ts (gop_key L (k - 1)) = Some wg \<and>
             weights ts (bn_key L (k - 1)) = Some wb \<and>
             weights ts ''output'' = Some wo \<and>
             blk = (get_random_block_weights c (wg, wb, wo), idx) \<and> w' = w)"
proof (cases "k = 0")
  case True
  then show ?thesis
    by (cases blk) (auto simp: propose_block_def bind_res_Inr_iff)
next
  case False
  then show ?thesis
    by (auto simp: propose_block_def dict_get_def bind_res_Inr_iff split: option.splits)
qed

lemma block_iteration_Inr:
  "block_iteration c p L k ts w = Inr (stop, ts', w') \<longleftrightarrow>
     (\<exists>ts1 blk w1 ts2 m h ts3 w2.
        (if k = 0 then start_layer p L ts else Inr ts) = Inr ts1 \<and>
        propose_block c p L k ts1 w = Inr (blk, w1) \<and>
        add_block p L k blk ts1 = Inr ts2 \<and>
        train_block c p L k ts2 w1 = Inr ((m, h), ts3, w2) \<and>
        block_converged c p L k m ts3 = Inr stop \<and>
        (if stop then rollback_block L k ts3 else commit_block p L k m h ts3) = Inr ts' \<and>
        dump ts' w2 = Inr w')"
  unfolding block_iteration_def
  by (auto simp: bind_res_Inr_iff split: if_splits)

lemmas step_defs =
  block_iteration_def start_layer_def propose_block_def search_routine_def add_block_def
  train_block_def block_converged_def rollback_block_def commit_block_def dump_def
  block_names_def set_cuda_variable_def reset_cuda_variable_def
  getitem_def getitem_last_def getitem_m2_def setitem_m2_def list_pop_def list_pop_m2_def
  del_last_def append_at_def dict_get_def dict_del_def blocks_append_def blocks_pop_def
  elem_len_def gop_key_def bn_key_def suffix_def str_nat.simps digit_char_def Let_def

lemmas demo_defs = demo_collab_def demo_params_def demo_world_def demo_fresh_def demo_block0_def



section \<open>Block rollback\<close>




lemmas loop_defs =
  grow_def layer_loop.simps layer_iteration_def block_loop.simps close_layer_def
  accept_layer_def rollback_layer_def del_block_keys.simps

lemma close_layer_first: "close_layer c p 0 ts = Inr (False, ts)"
  by (simp add: close_layer_def)

lemma accept_layer_Inr:
  "accept_layer block_stop ts = Inr ts' \<longleftrightarrow>
     (\<exists>out. weights ts ''output'' = Some out \<and>
        ts' = ts\<lparr>layer_iter := (if block_stop then layer_iter ts else layer_iter ts + 1),
                  layer_output_weight := Some out\<rparr>)"
  by (auto simp: accept_layer_def dict_get_def bind_res_Inr_iff Let_def split: option.splits)

lemma layer_iteration_Inr:
  "layer_iteration c p L ts w = Inr (rejected, ts', w') \<longleftrightarrow>
     (\<exists>block_stop ts1 ts2.
        block_loop c p L (block_iter ts) ts w = Inr (block_stop, ts1, w') \<and>
        close_layer c p L ts1 = Inr (rejected, ts2) \<and>
        (if rejected then ts' = ts2 else accept_layer block_stop ts2 = Inr ts'))"
  unfolding layer_iteration_def
  by (auto simp: bind_res_Inr_iff split: if_splits)

section \<open>The first layer\<close>

text \<open>
  C9. Whatever the convergence evaluator answers, the layer convergence check of layer 0
  leaves the state as it is and does not reject the layer; a pass of the layer loop for
  layer 0 never ends in the layer rollback, and it keeps the topology, weights,
  operator-set indices, history and measures its block loop produced.
\<close>

theorem first_layer_exempt:
  "close_layer c p 0 ts = Inr (False, ts) \<and>
   (layer_iteration c p 0 ts w = Inr (rejected, ts', w') \<longrightarrow>
      \<not> rejected \<and>
      (\<exists>block_stop ts1.
         block_loop c p 0 (block_iter ts) ts w = Inr (block_stop, ts1, w') \<and>
         topology ts' = topology ts1 \<and> weights ts' = weights ts1 \<and>
         op_set_indices ts' = op_set_indices ts1 \<and> history ts' = history ts1 \<and>
         measure_ts ts' = measure_ts ts1))"
  by (auto simp: layer_iteration_Inr close_layer_first accept_layer_Inr)

text \<open>Layer 0 under an evaluator that always declares convergence.\<close>

theorem first_layer_exempt_witness:
  "\<not> fst (projr demo_first_layer) \<and>
   topology (fst (snd (projr demo_first_layer)))
     = [Dim 4, Blocks [(''gop'', 20)], Desc (''dense'', 3)] \<and>
   history (fst (snd (projr demo_first_layer))) = [[7]]"
proof -
  have run: "layer_iteration demo_always_converge (demo_params 2 2 5 5) 0
       (demo_fresh (demo_params 2 2 5 5)) demo_world
     = Inr (fst (projr demo_first_layer), fst (snd (projr demo_first_layer)),
            snd (snd (projr demo_first_layer)))"
    by (simp add: demo_first_layer_def demo_always_converge_def loop_defs step_defs demo_defs)
  have rest: "topology (fst (snd (projr demo_first_layer)))
     = [Dim 4, Blocks [(''gop'', 20)], Desc (''dense'', 3)] \<and>
   history (fst (snd (projr demo_first_layer))) = [[7]]"
    by (simp add: demo_first_layer_def demo_always_converge_def loop_defs step_defs demo_defs)
  from first_layer_exempt [THEN conjunct2, rule_format, OF run] rest
  show ?thesis by blast
qed




lemma propose_block_world:
  assumes "propose_block c p L k ts w = Inr (blk, w1)"
  shows "cuda w1 = cuda w \<and> pickle w1 = pickle w \<and> tmp_exists w1 = tmp_exists w \<and>
         model_data w1 = model_data w \<and> checkpoints w1 = checkpoints w \<and>
         events w1 = events w @ (if k = 0 then [Searched L] else [])"
  using assms by (auto simp: propose_block_Inr checkpoints_def split: if_splits)

lemma block_loop_rule:
  assumes run: "block_loop c p L k ts w = Inr (stop, ts', w')"
    and init: "I k ts w"
    and step: "\<And>k ts w stop ts' w'. k < max_block p \<Longrightarrow> I k ts w \<Longrightarrow>
                 block_iteration c p L k ts w = Inr (stop, ts', w') \<Longrightarrow>
                 (if stop then Q True ts' w' else I (Suc k) ts' w')"
    and exit: "\<And>k ts w. max_block p \<le> k \<Longrightarrow> I k ts w \<Longrightarrow> Q False ts w"
  shows "Q stop ts' w'"
  using run init
proof (induction "max_block p - k" arbitrary: k ts w)
  case 0
  then have "max_block p \<le> k" by simp
  with 0 exit show ?case
    by (subst (asm) block_loop.simps) auto
next
  case (Suc n)
  then have k: "k < max_block p" by simp
  from Suc.prems(1) k obtain stop1 ts1 w1 where
    it: "block_iteration c p L k ts w = Inr (stop1, ts1, w1)" and
    rest: "(if stop1 then Inr (True, ts1, w1) else block_loop c p L (k + 1) ts1 w1)
             = Inr (stop, ts', w')"
    by (subst (asm) block_loop.simps) (auto simp: bind_res_Inr_iff)
  show ?case
  proof (cases stop1)
    case True
    with rest step [OF k Suc.prems(2) it] show ?thesis by simp
  next
    case False
    with step [OF k Suc.prems(2) it] have I': "I (Suc k) ts1 w1" by simp
    from Suc.hyps(2) k have "n = max_block p - Suc k" by simp
    from Suc.hyps(1) [OF this _ I'] rest False show ?thesis by simp
  qed
qed

lemma layer_loop_rule:
  assumes run: "layer_loop c p L ts w = Inr (rejected, ts', w')"
    and init: "I L ts w"
    and step: "\<And>L ts w rejected ts' w'. L < max_layer p \<Longrightarrow> I L ts w \<Longrightarrow>
                 layer_iteration c p L ts w = Inr (rejected, ts', w') \<Longrightarrow>
                 (if rejected then Q True ts' w' else I (Suc L) ts' w')"
    and exit: "\<And>L ts w. max_layer p \<le> L \<Longrightarrow> I L ts w \<Longrightarrow> Q False ts w"
  shows "Q rejected ts' w'"
  using run init
proof (induction "max_layer p - L" arbitrary: L ts w)
  case 0
  then have "max_layer p \<le> L" by simp
  with 0 exit show ?case
    by (subst (asm) layer_loop.simps) auto
next
  case (Suc n)
  then have L: "L < max_layer p" by simp
  from Suc.prems(1) L obtain rej1 ts1 w1 where
    it: "layer_iteration c p L ts w = Inr (rej1, ts1, w1)" and
    rest: "(if rej1 then Inr (True, ts1, w1) else layer_loop c p (L + 1) ts1 w1)
             = Inr (rejected, ts', w')"
    by (subst (asm) layer_loop.simps) (auto simp: bind_res_Inr_iff)
  show ?case
  proof (cases rej1)
    case True
    with rest step [OF L Suc.prems(2) it] show ?thesis by simp
  next
    case False
    with step [OF L Suc.prems(2) it] have I': "I (Suc L) ts1 w1" by simp
    from Suc.hyps(2) L have "n = max_layer p - Suc L" by simp
    from Suc.hyps(1) [OF this _ I'] rest False show ?thesis by simp
  qed
qed

lemma block_iteration_effect:
  assumes run: "block_iteration c p L k ts w = Inr (stop, ts', w')"
  shows "\<exists>ts1 b idx m h W.
     (if k = 0 then start_layer p L ts else Inr ts) = Inr ts1 \<and>
     (2 \<le> length (topology ts1) \<and>
     topology ts1 ! (length (topology ts1) - 2) = Blocks b \<and>
     topology ts' = (topology ts1)[length (topology ts1) - 2 :=
                       Blocks (if stop then b else b @ [(''gop'', block_size p)])] \<and>
     op_set_indices ts' = (if stop then (op_set_indices ts1)(gop_key L k := None)
                           else (op_set_indices ts1)(gop_key L k \<mapsto> idx)) \<and>
     (if k = 0 then \<not> stop \<and> (\<exists>bw. search_routine c p p ts1 = Inr (bw, idx))
      else op_set_indices ts1 (gop_key L (k - 1)) = Some idx) \<and>
     weights ts' = (if stop then W(gop_key L k := None, bn_key L k := None,
                                   ''output'' := block_output_weight ts1) else W) \<and>
     (trains_only_named c \<longrightarrow>
        (\<forall>key. key \<notin> {gop_key L k, bn_key L k, ''output''} \<longrightarrow> W key = weights ts1 key)) \<and>
     block_output_weight ts' = (if stop then block_output_weight ts1 else W ''output'') \<and>
     block_output_weight ts' \<noteq> None \<and>
     history ts' = (if stop then history ts1 else (history ts1)[L := history ts1 ! L @ [h]]) \<and>
     measure_ts ts' = (if stop then measure_ts ts1
                       else (measure_ts ts1)[L := measure_ts ts1 ! L @ [m]]) \<and>
     (\<not> stop \<longrightarrow> L < length (history ts1) \<and> L < length (measure_ts ts1)) \<and>
     layer_iter ts' = layer_iter ts + (if stop then 1 else 0) \<and>
     block_iter ts' = (if stop \<or> k = max_block p - 1 then 0 else k + 1) \<and>
     layer_output_weight ts' = layer_output_weight ts \<and>
     is_finished ts' = is_finished ts \<and>
     use_bias ts' = use_bias ts \<and> output_activation ts' = output_activation ts \<and>
     tmp_exists w \<and> tmp_exists w' \<and> cuda w' = cuda w \<and> model_data w' = model_data w \<and>
     pickle w' = Some ts' \<and>
     events w' = events w @ (if k = 0 then [Searched L] else [])
                   @ [Trained (block_names L k), Saved ts'])"
    (is "\<exists>ts1 b idx m h W. ?S ts1 \<and> ?B ts1 b idx m h W")
proof -
  from run obtain ts1 blk w1 ts2 m h ts3 w2 where
    st: "(if k = 0 then start_layer p L ts else Inr ts) = Inr ts1" and
    prp: "propose_block c p L k ts1 w = Inr (blk, w1)" and
    add: "add_block p L k blk ts1 = Inr ts2" and
    train: "train_block c p L k ts2 w1 = Inr ((m, h), ts3, w2)" and
    conv: "block_converged c p L k m ts3 = Inr stop" and
    fin: "(if stop then rollback_block L k ts3 else commit_block p L k m h ts3) = Inr ts'" and
    dmp: "dump ts' w2 = Inr w'"
    by (auto simp: block_iteration_Inr)
  obtain w0 w1' wo idx where blk: "blk = ((w0, w1', wo), idx)"
    by (cases blk) auto
  from add blk obtain b where
    len: "2 \<le> length (topology ts1)" and
    nth: "topology ts1 ! (length (topology ts1) - 2) = Blocks b" and
    ts2: "ts2 = ts1\<lparr>topology := (topology ts1)[length (topology ts1) - 2 :=
                                  Blocks (b @ [(''gop'', block_size p)])],
                  op_set_indices := (op_set_indices ts1)(gop_key L k \<mapsto> idx),
                  weights := (weights ts1)(gop_key L k \<mapsto> w0, bn_key L k \<mapsto> w1',
                                          ''output'' \<mapsto> wo)\<rparr>"
    by (auto simp: add_block_Inr)
  from train obtain W where
    upd: "block_update c (topology ts2) (op_set_indices ts2) (weights ts2) p (block_names L k)
            = Inr (m, h, W)" and
    ts3: "ts3 = ts2\<lparr>weights := W\<rparr>" and
    w2: "w2 = w1\<lparr>events := events w1 @ [Trained (block_names L k)]\<rparr>"
    by (auto simp: train_block_Inr)
  from dmp have w': "w' = w2\<lparr>pickle := Some ts', events := events w2 @ [Saved ts']\<rparr>"
    and tmp: "tmp_exists w2"
    by (simp_all add: dump_Inr)
  have w1: "events w1 = events w @ (if k = 0 then [Searched L] else [])"
    "cuda w1 = cuda w" "tmp_exists w1 = tmp_exists w" "model_data w1 = model_data w"
    using propose_block_world [OF prp] by simp_all
  have src: "if k = 0 then \<not> stop \<and> (\<exists>bw. search_routine c p p ts1 = Inr (bw, idx))
      else op_set_indices ts1 (gop_key L (k - 1)) = Some idx"
    using prp blk conv by (auto simp: propose_block_Inr block_converged_Inr split: if_splits)
  have frame: "trains_only_named c \<longrightarrow>
        (\<forall>key. key \<notin> {gop_key L k, bn_key L k, ''output''} \<longrightarrow> W key = weights ts1 key)"
  proof (intro impI allI)
    fix key
    assume "trains_only_named c" and key: "key \<notin> {gop_key L k, bn_key L k, ''output''}"
    then have "W key = weights ts2 key"
      using upd unfolding trains_only_named_def by (auto simp: block_names_def)
    with key show "W key = weights ts1 key" using ts2 by simp
  qed
  have lay: "layer_iter ts1 = layer_iter ts" "layer_output_weight ts1 = layer_output_weight ts"
    "is_finished ts1 = is_finished ts" "use_bias ts1 = use_bias ts"
    "output_activation ts1 = output_activation ts"
    using st by (auto simp: start_layer_Inr split: if_splits)
  have nth3: "topology ts3 ! (length (topology ts3) - 2) = Blocks (b @ [(''gop'', block_size p)])"
    "length (topology ts3) = length (topology ts1)"
    using ts3 ts2 len by simp_all
  show ?thesis
  proof (cases stop)
    case True
    with fin nth3 obtain bow where
      bow: "block_output_weight ts3 = Some bow" and
      ts': "ts' = ts3\<lparr>topology := (topology ts3)[length (topology ts3) - 2 := Blocks b],
                  weights := W(gop_key L k := None, bn_key L k := None, ''output'' \<mapsto> bow),
                  op_set_indices := (op_set_indices ts3)(gop_key L k := None),
                  block_iter := 0, layer_iter := layer_iter ts3 + 1\<rparr>"
      using ts3 by (auto simp: rollback_block_Inr)
    from bow ts3 ts2 have bow1: "block_output_weight ts1 = Some bow" by simp
    from True src have kpos: "0 < k" by (auto split: if_splits)
    from True kpos len nth src frame tmp w1 have "?B ts1 b idx m h W"
      by (simp add: ts' ts3 ts2 bow1 w' w2 lay)
    with st show ?thesis by blast
  next
    case False
    with fin obtain out where
      out: "weights ts3 ''output'' = Some out" and
      lens: "L < length (measure_ts ts3)" "L < length (history ts3)" and
      ts': "ts' = ts3\<lparr>block_output_weight := Some out,
                  measure_ts := (measure_ts ts3)[L := measure_ts ts3 ! L @ [m]],
                  history := (history ts3)[L := history ts3 ! L @ [h]],
                  block_iter := (if k = max_block p - 1 then 0 else k + 1)\<rparr>"
      by (auto simp: commit_block_Inr)
    from False len nth src frame tmp w1 out lens have "?B ts1 b idx m h W"
      by (simp add: ts' ts3 ts2 w' w2 lay)
    with st show ?thesis by blast
  qed
qed

lemma layer_grown_first:
  assumes it: "block_iteration c p L 0 s w = Inr (stop, ts', w')" and mb: "0 < max_block p"
  shows "\<not> stop \<and> layer_grown c p L s 1 False ts'"
proof -
  from block_iteration_effect [OF it] obtain ts1 b idx m h W where
    st: "start_layer p L s = Inr ts1" and
    nth: "topology ts1 ! (length (topology ts1) - 2) = Blocks b" and
    topo: "topology ts' = (topology ts1)[length (topology ts1) - 2 :=
                       Blocks (if stop then b else b @ [(''gop'', block_size p)])]" and
    osi: "op_set_indices ts' = (if stop then (op_set_indices ts1)(gop_key L 0 := None)
                           else (op_set_indices ts1)(gop_key L 0 \<mapsto> idx))" and
    src: "\<not> stop \<and> (\<exists>bw. search_routine c p p ts1 = Inr (bw, idx))" and
    hist: "history ts' = (if stop then history ts1 else (history ts1)[L := history ts1 ! L @ [h]])" and
    meas: "measure_ts ts' = (if stop then measure_ts ts1
                       else (measure_ts ts1)[L := measure_ts ts1 ! L @ [m]])" and
    lay: "layer_iter ts' = layer_iter s + (if stop then 1 else 0)" and
    blk: "block_iter ts' = (if stop \<or> 0 = max_block p - 1 then 0 else 0 + 1)" and
    low: "layer_output_weight ts' = layer_output_weight s" and
    fin: "is_finished ts' = is_finished s"
    by auto
  from st have ts1: "topology ts1 = (if 0 < L then butlast (topology s) else topology s)
                             @ [Blocks [], Desc (''dense'', output_dim p)]"
    "history ts1 = history s @ [[]]" "measure_ts ts1 = measure_ts s @ [[]]"
    "op_set_indices ts1 = op_set_indices s"
    by (auto simp: start_layer_Inr)
  from nth ts1(1) have b: "b = []" by simp
  from src obtain bw where bw: "search_routine c p p ts1 = Inr (bw, idx)" by blast
  have blk': "block_iter ts' = (if 1 = max_block p then 0 else 1)"
    using blk src mb by auto
  show ?thesis
    unfolding layer_grown_def
    using src st bw topo osi hist meas lay blk' low fin b ts1
    by (intro conjI exI [of _ ts1] exI [of _ bw] exI [of _ idx]) auto
qed

lemma layer_grown_next:
  assumes it: "block_iteration c p L k ts w = Inr (stop, ts', w')"
    and k: "0 < k" "k < max_block p"
    and inv: "layer_grown c p L s k False ts"
  shows "if stop then layer_grown c p L s k True ts'
         else layer_grown c p L s (Suc k) False ts'"
proof -
  from inv obtain s1 bw idx where
    st: "start_layer p L s = Inr s1" and bw: "search_routine c p p s1 = Inr (bw, idx)" and
    itopo: "topology ts = (if 0 < L then butlast (topology s) else topology s)
                        @ [Blocks (replicate k (''gop'', block_size p)),
                           Desc (''dense'', output_dim p)]" and
    iosi: "\<forall>j<k. op_set_indices ts (gop_key L j) = Some idx" and
    iother: "\<forall>key. (\<forall>j<k. key \<noteq> gop_key L j) \<longrightarrow>
           op_set_indices ts key = op_set_indices s key \<or>
           op_set_indices ts key = None \<and> (\<exists>j. key = gop_key L j)" and
    ilen: "length (history ts) = length (history s) + 1"
          "length (measure_ts ts) = length (measure_ts s) + 1" and
    ilay: "layer_iter ts = layer_iter s" and
    ilow: "layer_output_weight ts = layer_output_weight s" and
    ifin: "is_finished ts = is_finished s"
    unfolding layer_grown_def by auto
  from block_iteration_effect [OF it] k(1) obtain b idx' m h W where
    nth: "topology ts ! (length (topology ts) - 2) = Blocks b" and
    topo: "topology ts' = (topology ts)[length (topology ts) - 2 :=
                       Blocks (if stop then b else b @ [(''gop'', block_size p)])]" and
    osi: "op_set_indices ts' = (if stop then (op_set_indices ts)(gop_key L k := None)
                           else (op_set_indices ts)(gop_key L k \<mapsto> idx'))" and
    src: "op_set_indices ts (gop_key L (k - 1)) = Some idx'" and
    hist: "history ts' = (if stop then history ts else (history ts)[L := history ts ! L @ [h]])" and
    meas: "measure_ts ts' = (if stop then measure_ts ts
                       else (measure_ts ts)[L := measure_ts ts ! L @ [m]])" and
    lay: "layer_iter ts' = layer_iter ts + (if stop then 1 else 0)" and
    blk: "block_iter ts' = (if stop \<or> k = max_block p - 1 then 0 else k + 1)" and
    low: "layer_output_weight ts' = layer_output_weight ts" and
    fin: "is_finished ts' = is_finished ts"
    by auto
  from nth itopo have b: "b = replicate k (''gop'', block_size p)" by simp
  from k(1) have "k - 1 < k" by simp
  with iosi have "op_set_indices ts (gop_key L (k - 1)) = Some idx" by blast
  with src have idx': "idx' = idx" by simp
  have rep: "replicate k (''gop'', block_size p) @ [(''gop'', block_size p)]
               = replicate (Suc k) (''gop'', block_size p)"
    by (simp add: replicate_append_same)
  show ?thesis
  proof (cases stop)
    case True
    have "topology ts' = (if 0 < L then butlast (topology s) else topology s)
                        @ [Blocks (replicate k (''gop'', block_size p)),
                           Desc (''dense'', output_dim p)]"
      using topo True b itopo by simp
    moreover have "\<forall>j<k. op_set_indices ts' (gop_key L j) = Some idx"
      using osi True iosi by simp
    moreover have "\<forall>key. (\<forall>j<k. key \<noteq> gop_key L j) \<longrightarrow>
           op_set_indices ts' key = op_set_indices s key \<or>
           op_set_indices ts' key = None \<and> (\<exists>j. key = gop_key L j)"
      using osi True iother by auto
    ultimately have "layer_grown c p L s k True ts'"
      unfolding layer_grown_def
      using True st bw hist meas lay blk low fin ilen ilay ilow ifin
      by (intro exI [of _ s1] exI [of _ bw] exI [of _ idx]) simp
    with True show ?thesis by simp
  next
    case False
    have "topology ts' = (if 0 < L then butlast (topology s) else topology s)
                        @ [Blocks (replicate (Suc k) (''gop'', block_size p)),
                           Desc (''dense'', output_dim p)]"
      using topo False b itopo rep by simp
    moreover have "\<forall>j<Suc k. op_set_indices ts' (gop_key L j) = Some idx"
      using osi False iosi idx' by (auto simp: less_Suc_eq)
    moreover have "\<forall>key. (\<forall>j<Suc k. key \<noteq> gop_key L j) \<longrightarrow>
           op_set_indices ts' key = op_set_indices s key \<or>
           op_set_indices ts' key = None \<and> (\<exists>j. key = gop_key L j)"
      using osi False iother by (auto simp: less_Suc_eq)
    moreover have "block_iter ts' = (if Suc k = max_block p then 0 else Suc k)"
      using blk False k by auto
    ultimately have "layer_grown c p L s (Suc k) False ts'"
      unfolding layer_grown_def
      using False st bw hist meas lay low fin ilen ilay ilow ifin
      by (intro exI [of _ s1] exI [of _ bw] exI [of _ idx]) simp
    with False show ?thesis by simp
  qed
qed

lemma layer_grown_block_iter:
  assumes "layer_grown c p L s n stop ts" and "stop \<or> n = max_block p"
  shows "block_iter ts = 0"
  using assms unfolding layer_grown_def by auto

lemma block_loop_layer_grown:
  assumes run: "block_loop c p L 0 s w = Inr (stop, ts', w')" and mb: "0 < max_block p"
  shows "\<exists>n. 0 < n \<and> n \<le> max_block p \<and> (stop \<longrightarrow> n < max_block p) \<and>
             layer_grown c p L s n stop ts' \<and> block_iter ts' = 0"
proof (rule block_loop_rule [OF run,
    where I = "\<lambda>k ts w. (k = 0 \<and> ts = s) \<or> (0 < k \<and> k \<le> max_block p \<and> layer_grown c p L s k False ts)"
      and Q = "\<lambda>stop ts w. \<exists>n. 0 < n \<and> n \<le> max_block p \<and> (stop \<longrightarrow> n < max_block p) \<and>
             layer_grown c p L s n stop ts \<and> block_iter ts = 0"])
  show "(0 = 0 \<and> s = s) \<or> (0 < (0::nat) \<and> 0 \<le> max_block p \<and> layer_grown c p L s 0 False s)"
    by simp
next
  fix k ts w stop ts' w'
  assume k: "k < max_block p"
    and I: "(k = 0 \<and> ts = s) \<or> (0 < k \<and> k \<le> max_block p \<and> layer_grown c p L s k False ts)"
    and it: "block_iteration c p L k ts w = Inr (stop, ts', w')"
  show "if stop
        then \<exists>n. 0 < n \<and> n \<le> max_block p \<and> (True \<longrightarrow> n < max_block p) \<and>
                 layer_grown c p L s n True ts' \<and> block_iter ts' = 0
        else (Suc k = 0 \<and> ts' = s) \<or>
             (0 < Suc k \<and> Suc k \<le> max_block p \<and> layer_grown c p L s (Suc k) False ts')"
  proof (cases "k = 0")
    case True
    with I it mb layer_grown_first [of c p L s w stop ts' w'] k show ?thesis by auto
  next
    case False
    with I have inv: "layer_grown c p L s k False ts" and kpos: "0 < k" by auto
    show ?thesis
    proof (cases stop)
      case True
      with layer_grown_next [OF it kpos k inv] have g: "layer_grown c p L s k True ts'" by simp
      with layer_grown_block_iter [OF g] True k kpos show ?thesis by auto
    next
      case False
      with layer_grown_next [OF it kpos k inv] k show ?thesis by simp
    qed
  qed
next
  fix k ts w
  assume "max_block p \<le> k"
    and "(k = 0 \<and> ts = s) \<or> (0 < k \<and> k \<le> max_block p \<and> layer_grown c p L s k False ts)"
  with mb have g: "layer_grown c p L s k False ts" and keq: "k = max_block p" by auto
  from layer_grown_block_iter [OF g] keq mb g
  show "\<exists>n. 0 < n \<and> n \<le> max_block p \<and> (False \<longrightarrow> n < max_block p) \<and>
                 layer_grown c p L s n False ts \<and> block_iter ts = 0"
    by auto
qed

lemma bind_res_weak_cong: "m = m' \<Longrightarrow> bind_res m f = bind_res m' f"
  by simp

lemma block_iteration_checkpoints:
  assumes "block_iteration c p L k ts w = Inr (stop, ts', w')"
  shows "checkpoints w' = checkpoints w @ [ts']"
  using block_iteration_effect [OF assms] by (auto simp: checkpoints_def)

lemma layer_grown_homogeneous:
  assumes "layer_grown c p L s n stop ts" and "0 < n"
  shows "getitem_m2 (topology ts) = Inr (Blocks (replicate n (''gop'', block_size p))) \<and>
         op_set_indices ts (gop_key L 0) \<noteq> None \<and>
         (\<forall>j<n. op_set_indices ts (gop_key L j) = op_set_indices ts (gop_key L 0))"
  using assms unfolding layer_grown_def by (auto simp: getitem_m2_def)

section \<open>Blocks of one layer\<close>

text \<open>
  A pass of the block loop entered at block 0. For a block \<open>k > 0\<close> the proposed
  operator-set index is the one stored for block \<open>k - 1\<close> of the same layer and the
  proposed weights are \<^verbatim>\<open>get_random_block_weights\<close> of that block's weights, its
  normalization weights and the output weights; adding the block stores them under the
  block's keys. After the block loop of a layer, run from block 0, the block list the
  loop appended holds \<open>n > 0\<close> blocks and each of them has the operator-set index the
  search returned for block 0.
\<close>

lemma homogeneous_layer:
  "(0 < k \<and> propose_block c p L k ts w = Inr ((bw, idx), w1) \<longrightarrow>
      w1 = w \<and> op_set_indices ts (gop_key L (k - 1)) = Some idx \<and>
      (\<exists>wg wb wo. weights ts (gop_key L (k - 1)) = Some wg \<and>
         weights ts (bn_key L (k - 1)) = Some wb \<and> weights ts ''output'' = Some wo \<and>
         bw = get_random_block_weights c (wg, wb, wo))) \<and>
   (add_block p L k ((v0, v1, v2), idx) ts = Inr ts2 \<longrightarrow>
      op_set_indices ts2 (gop_key L k) = Some idx \<and> weights ts2 (gop_key L k) = Some v0 \<and>
      weights ts2 (bn_key L k) = Some v1 \<and> weights ts2 ''output'' = Some v2) \<and>
   (0 < max_block p \<and> block_loop c p L 0 s w = Inr (stop, ts', w') \<longrightarrow>
      (\<exists>n. 0 < n \<and> n \<le> max_block p \<and>
         getitem_m2 (topology ts') = Inr (Blocks (replicate n (''gop'', block_size p))) \<and>
         op_set_indices ts' (gop_key L 0) \<noteq> None \<and>
         (\<forall>j<n. op_set_indices ts' (gop_key L j) = op_set_indices ts' (gop_key L 0))))"
proof -
  have a: "w1 = w \<and> op_set_indices ts (gop_key L (k - 1)) = Some idx \<and>
      (\<exists>wg wb wo. weights ts (gop_key L (k - 1)) = Some wg \<and>
         weights ts (bn_key L (k - 1)) = Some wb \<and> weights ts ''output'' = Some wo \<and>
         bw = get_random_block_weights c (wg, wb, wo))"
    if "0 < k \<and> propose_block c p L k ts w = Inr ((bw, idx), w1)"
    using that by (auto simp: propose_block_Inr)
  have b: "op_set_indices ts2 (gop_key L k) = Some idx \<and> weights ts2 (gop_key L k) = Some v0 \<and>
      weights ts2 (bn_key L k) = Some v1 \<and> weights ts2 ''output'' = Some v2"
    if "add_block p L k ((v0, v1, v2), idx) ts = Inr ts2"
    using that by (auto simp: add_block_Inr)
  have c: "\<exists>n. 0 < n \<and> n \<le> max_block p \<and>
         getitem_m2 (topology ts') = Inr (Blocks (replicate n (''gop'', block_size p))) \<and>
         op_set_indices ts' (gop_key L 0) \<noteq> None \<and>
         (\<forall>j<n. op_set_indices ts' (gop_key L j) = op_set_indices ts' (gop_key L 0))"
    if "0 < max_block p \<and> block_loop c p L 0 s w = Inr (stop, ts', w')"
  proof -
    from that obtain n where n: "0 < n" "n \<le> max_block p" "layer_grown c p L s n stop ts'"
      using block_loop_layer_grown [of c p L s w stop ts' w'] by blast
    with layer_grown_homogeneous [OF n(3) n(1)] show ?thesis by blast
  qed
  show ?thesis
    by (rule conjI [OF impI [OF a] conjI [OF impI [OF b] impI [OF c]]])
qed

text \<open>
  Block 1 of layer 0 after the committed block 0, and a layer of two blocks under a
  search that returns operator-set index 3.
\<close>

lemma homogeneous_layer_demo:
  "propose_block demo_collab (demo_params 1 2 5 5) 0 1 demo_block0 demo_world
     = Inr (((11, 12, 13), 3), demo_world) \<and>
   op_set_indices demo_block0 (gop_key 0 0) = Some 3 \<and>
   op_set_indices (projr (add_block (demo_params 1 2 5 5) 0 1 ((11, 12, 13), 3) demo_block0))
     (gop_key 0 1) = Some 3 \<and>
   getitem_m2 (topology (fst (snd (projr demo_two_blocks))))
     = Inr (Blocks [(''gop'', 20), (''gop'', 20)]) \<and>
   op_set_indices (fst (snd (projr demo_two_blocks))) (gop_key 0 1)
     = op_set_indices (fst (snd (projr demo_two_blocks))) (gop_key 0 0)"
proof -
  let ?p = "demo_params 1 2 5 5"
  let ?ts2 = "projr (add_block ?p 0 1 ((11, 12, 13), 3) demo_block0)"
  let ?ts' = "fst (snd (projr demo_two_blocks))"
  have h1: "0 < (1::nat) \<and>
      propose_block demo_collab ?p 0 1 demo_block0 demo_world = Inr (((11, 12, 13), 3), demo_world)"
    by (simp add: step_defs demo_defs)
  have h2: "add_block ?p 0 1 ((11, 12, 13), 3) demo_block0 = Inr ?ts2"
    by (simp add: step_defs demo_defs)
  have ev: "\<not> isl demo_two_blocks"
    and top: "getitem_m2 (topology ?ts') = Inr (Blocks [(''gop'', 20), (''gop'', 20)])"
    by (simp_all add: demo_two_blocks_def block_loop.simps step_defs demo_defs
        cong: bind_res_weak_cong)
  have "block_loop demo_collab ?p 0 0 (demo_fresh ?p) demo_world
        = Inr (fst (projr demo_two_blocks), ?ts', snd (snd (projr demo_two_blocks)))"
    unfolding demo_two_blocks_def [symmetric] using sum.collapse(2) [OF ev] by simp
  moreover have "0 < max_block ?p" by (simp add: demo_params_def)
  ultimately have h3: "0 < max_block ?p \<and>
      block_loop demo_collab ?p 0 0 (demo_fresh ?p) demo_world
        = Inr (fst (projr demo_two_blocks), ?ts', snd (snd (projr demo_two_blocks)))"
    by (rule conjI [rotated])
  note T = homogeneous_layer [of 1 demo_collab ?p 0 demo_block0 demo_world "(11, 12, 13)" 3
      demo_world 11 12 13 ?ts2 "demo_fresh ?p" "fst (projr demo_two_blocks)" ?ts'
      "snd (snd (projr demo_two_blocks))"]
  from mp [OF T [THEN conjunct1] h1]
  have a: "op_set_indices demo_block0 (gop_key 0 (1 - 1)) = Some 3" by (elim conjE)
  from mp [OF T [THEN conjunct2, THEN conjunct1] h2]
  have b: "op_set_indices ?ts2 (gop_key 0 1) = Some 3" by (elim conjE)
  from mp [OF T [THEN conjunct2, THEN conjunct2] h3] obtain n where n: "0 < n"
    "getitem_m2 (topology ?ts') = Inr (Blocks (replicate n (''gop'', block_size ?p)))"
    "\<forall>j<n. op_set_indices ?ts' (gop_key 0 j) = op_set_indices ?ts' (gop_key 0 0)"
    by (elim exE conjE)
  from n(2) [unfolded top]
  have "length [(''gop'', 20::nat), (''gop'', 20)]
      = length (replicate n (''gop'', block_size ?p))"
    by (simp only: sum.inject topo_elem.inject)
  then have "1 < n" by simp
  with n(3) have c: "op_set_indices ?ts' (gop_key 0 1) = op_set_indices ?ts' (gop_key 0 0)"
    by blast
  have "(1::nat) - 1 = 0" by simp
  with a have a': "op_set_indices demo_block0 (gop_key 0 0) = Some 3" by (simp only:)
  from h1 a' b top c show ?thesis by (intro conjI) (elim conjE, assumption)+
qed

lemma rollback_layer_effect:
  assumes "rollback_layer L ts = Inr ts'"
  shows "2 \<le> length (topology ts) \<and>
         topology ts' = take (length (topology ts) - 2) (topology ts) @ [last (topology ts)] \<and>
         history ts \<noteq> [] \<and> history ts' = butlast (history ts) \<and>
         measure_ts ts' = measure_ts ts \<and>
         layer_iter ts' = layer_iter ts \<and> block_iter ts' = block_iter ts \<and>
         is_finished ts' = is_finished ts \<and>
         layer_output_weight ts' = layer_output_weight ts \<and>
         block_output_weight ts' = block_output_weight ts \<and>
         layer_output_weight ts \<noteq> None \<and>
         weights ts' ''output'' = layer_output_weight ts \<and>
         (\<exists>n wts osi. elem_len (topology ts ! (length (topology ts) - 2)) = Inr n \<and>
            del_block_keys L [0..<n] (weights ts, op_set_indices ts) = Inr (wts, osi) \<and>
            weights ts' = wts(''output'' := layer_output_weight ts) \<and>
            op_set_indices ts' = osi)"
  using assms unfolding rollback_layer_def
  by (auto simp: bind_res_Inr_iff list_pop_m2_def del_last_def split: if_splits option.splits)

lemma close_layer_Inr:
  "close_layer c p L ts = Inr (rejected, ts') \<Longrightarrow>
     (if rejected then 0 < L \<and> rollback_layer L ts = Inr ts' else ts' = ts)"
  unfolding close_layer_def
  by (auto simp: bind_res_Inr_iff split: if_splits)

lemma block_loop_grown_checkpoints:
  assumes run: "block_loop c p L 0 s w = Inr (stop, ts', w')" and mb: "0 < max_block p"
  shows "\<exists>ss. checkpoints w' = checkpoints w @ ss \<and>
              (\<forall>x\<in>set ss. \<exists>n st. 0 < n \<and> layer_grown c p L s n st x)"
proof (rule block_loop_rule [OF run,
    where I = "\<lambda>k ts w1. ((k = 0 \<and> ts = s) \<or> (0 < k \<and> layer_grown c p L s k False ts)) \<and>
                 (\<exists>ss. checkpoints w1 = checkpoints w @ ss \<and>
                    (\<forall>x\<in>set ss. \<exists>n st. 0 < n \<and> layer_grown c p L s n st x))"
      and Q = "\<lambda>stop ts w1. \<exists>ss. checkpoints w1 = checkpoints w @ ss \<and>
                    (\<forall>x\<in>set ss. \<exists>n st. 0 < n \<and> layer_grown c p L s n st x)"])
  show "((0 = 0 \<and> s = s) \<or> (0 < (0::nat) \<and> layer_grown c p L s 0 False s)) \<and>
        (\<exists>ss. checkpoints w = checkpoints w @ ss \<and>
           (\<forall>x\<in>set ss. \<exists>n st. 0 < n \<and> layer_grown c p L s n st x))"
    by simp
next
  fix k ts w1 stop ts' w1'
  assume k: "k < max_block p"
    and I: "((k = 0 \<and> ts = s) \<or> (0 < k \<and> layer_grown c p L s k False ts)) \<and>
            (\<exists>ss. checkpoints w1 = checkpoints w @ ss \<and>
               (\<forall>x\<in>set ss. \<exists>n st. 0 < n \<and> layer_grown c p L s n st x))"
    and it: "block_iteration c p L k ts w1 = Inr (stop, ts', w1')"
  from I obtain ss where ss: "checkpoints w1 = checkpoints w @ ss"
    "\<forall>x\<in>set ss. \<exists>n st. 0 < n \<and> layer_grown c p L s n st x"
    by blast
  have new: "(if stop then layer_grown c p L s k True ts' \<and> 0 < k
             else layer_grown c p L s (Suc k) False ts')"
  proof (cases "k = 0")
    case True
    with I it mb layer_grown_first [of c p L s w1 stop ts' w1'] show ?thesis by auto
  next
    case False
    with I have inv: "layer_grown c p L s k False ts" and kpos: "0 < k" by auto
    from layer_grown_next [OF it kpos k inv] kpos show ?thesis by auto
  qed
  then have g: "\<exists>n st. 0 < n \<and> layer_grown c p L s n st ts'"
    by (cases stop) auto
  from block_iteration_checkpoints [OF it] ss(1)
  have cp: "checkpoints w1' = checkpoints w @ (ss @ [ts'])" by simp
  from ss(2) g have all: "\<forall>x\<in>set (ss @ [ts']). \<exists>n st. 0 < n \<and> layer_grown c p L s n st x"
    by auto
  from cp all have ex: "\<exists>ss. checkpoints w1' = checkpoints w @ ss \<and>
               (\<forall>x\<in>set ss. \<exists>n st. 0 < n \<and> layer_grown c p L s n st x)"
    by blast
  show "if stop
        then \<exists>ss. checkpoints w1' = checkpoints w @ ss \<and>
               (\<forall>x\<in>set ss. \<exists>n st. 0 < n \<and> layer_grown c p L s n st x)
        else ((Suc k = 0 \<and> ts' = s) \<or> (0 < Suc k \<and> layer_grown c p L s (Suc k) False ts')) \<and>
             (\<exists>ss. checkpoints w1' = checkpoints w @ ss \<and>
               (\<forall>x\<in>set ss. \<exists>n st. 0 < n \<and> layer_grown c p L s n st x))"
    using new ex by (cases stop) simp_all
next
  fix k ts w1
  assume "max_block p \<le> k"
    and "((k = 0 \<and> ts = s) \<or> (0 < k \<and> layer_grown c p L s k False ts)) \<and>
         (\<exists>ss. checkpoints w1 = checkpoints w @ ss \<and>
            (\<forall>x\<in>set ss. \<exists>n st. 0 < n \<and> layer_grown c p L s n st x))"
  then show "\<exists>ss. checkpoints w1 = checkpoints w @ ss \<and>
            (\<forall>x\<in>set ss. \<exists>n st. 0 < n \<and> layer_grown c p L s n st x)"
    by blast
qed

lemma layer_grown_lengths:
  assumes "layer_grown c p L s n st x"
  shows "length (history x) = length (history s) + 1 \<and>
         length (measure_ts x) = length (measure_ts s) + 1 \<and>
         (0 < L \<longrightarrow> topology s \<noteq> []) \<and>
         length (topology x) = (if 0 < L then length (topology s) - 1 else length (topology s)) + 2 \<and>
         layer_iter x = layer_iter s + (if st then 1 else 0)"
  using assms unfolding layer_grown_def by (auto simp: start_layer_Inr)

lemma block_iteration_take:
  assumes it: "block_iteration c p L k ts w = Inr (stop, ts', w')"
  shows "take L (history ts') = take L (history ts) \<and>
         take L (measure_ts ts') = take L (measure_ts ts)"
proof -
  from block_iteration_effect [OF it] obtain ts1 m h where
    st: "(if k = 0 then start_layer p L ts else Inr ts) = Inr ts1" and
    hist: "history ts' = (if stop then history ts1 else (history ts1)[L := history ts1 ! L @ [h]])" and
    meas: "measure_ts ts' = (if stop then measure_ts ts1
                       else (measure_ts ts1)[L := measure_ts ts1 ! L @ [m]])" and
    src: "if k = 0 then \<not> stop else True" and
    len: "\<not> stop \<longrightarrow> L < length (history ts1) \<and> L < length (measure_ts ts1)"
    by (auto split: if_splits)
  show ?thesis
  proof (cases "k = 0")
    case True
    with st have ts1: "history ts1 = history ts @ [[]]" "measure_ts ts1 = measure_ts ts @ [[]]"
      by (auto simp: start_layer_Inr)
    from True src have ns: "\<not> stop" by simp
    with len ts1 have "L \<le> length (history ts)" "L \<le> length (measure_ts ts)" by auto
    with hist meas ns ts1 show ?thesis by simp
  next
    case False
    with st have "ts1 = ts" by simp
    with hist meas show ?thesis by (cases stop) simp_all
  qed
qed

lemma block_loop_take:
  assumes run: "block_loop c p L k ts w = Inr (stop, ts', w')"
  shows "take L (history ts') = take L (history ts) \<and>
         take L (measure_ts ts') = take L (measure_ts ts)"
proof (rule block_loop_rule [OF run,
    where I = "\<lambda>k ts1 w1. take L (history ts1) = take L (history ts) \<and>
                 take L (measure_ts ts1) = take L (measure_ts ts)"
      and Q = "\<lambda>stop ts1 w1. take L (history ts1) = take L (history ts) \<and>
                 take L (measure_ts ts1) = take L (measure_ts ts)"])
  show "take L (history ts) = take L (history ts) \<and>
        take L (measure_ts ts) = take L (measure_ts ts)"
    by simp
next
  fix k ts1 w1 stop ts1' w1'
  assume "take L (history ts1) = take L (history ts) \<and>
          take L (measure_ts ts1) = take L (measure_ts ts)"
    and "block_iteration c p L k ts1 w1 = Inr (stop, ts1', w1')"
  with block_iteration_take [of c p L k ts1 w1 stop ts1' w1']
  show "if stop
        then take L (history ts1') = take L (history ts) \<and>
             take L (measure_ts ts1') = take L (measure_ts ts)
        else take L (history ts1') = take L (history ts) \<and>
             take L (measure_ts ts1') = take L (measure_ts ts)"
    by simp
qed simp

lemma fresh_layer_iteration:
  assumes it: "layer_iteration c p L ts w1 = Inr (rej, ts', w1')"
    and mb: "0 < max_block p"
    and bi: "block_iter ts = 0"
    and hl: "length (history ts) = L"
    and tl: "length (topology ts) = n0 + (if L = 0 then 0 else L + 1)"
  shows "block_iter ts' = 0 \<and>
         length (measure_ts ts') = length (measure_ts ts) + 1 \<and>
         take L (measure_ts ts') = take L (measure_ts ts) \<and>
         (if rej then 0 < L \<and> history ts' = history ts \<and> length (topology ts') = n0 + L + 1
          else length (history ts') = Suc L \<and> length (topology ts') = n0 + Suc L + 1) \<and>
         (\<exists>ss. checkpoints w1' = checkpoints w1 @ ss \<and>
            (\<forall>x\<in>set ss. topology_length_ok n0 x))"
proof -
  from it bi obtain block_stop ts1 ts2 where
    bl: "block_loop c p L 0 ts w1 = Inr (block_stop, ts1, w1')" and
    cl: "close_layer c p L ts1 = Inr (rej, ts2)" and
    ac: "if rej then ts' = ts2 else accept_layer block_stop ts2 = Inr ts'"
    by (auto simp: layer_iteration_Inr)
  from block_loop_layer_grown [OF bl mb] obtain n where
    g: "layer_grown c p L ts n block_stop ts1" and b1: "block_iter ts1 = 0"
    by blast
  note gl = layer_grown_lengths [OF g]
  from gl hl tl have len1: "length (history ts1) = L + 1"
    "length (measure_ts ts1) = length (measure_ts ts) + 1"
    "length (topology ts1) = n0 + L + 2"
    by (auto split: if_splits)
  note tk = block_loop_take [OF bl]
  from block_loop_grown_checkpoints [OF bl mb] obtain ss where
    ss: "checkpoints w1' = checkpoints w1 @ ss"
      "\<forall>x\<in>set ss. \<exists>n st. 0 < n \<and> layer_grown c p L ts n st x"
    by blast
  have ok: "\<forall>x\<in>set ss. topology_length_ok n0 x"
  proof
    fix x assume "x \<in> set ss"
    with ss(2) obtain n st where "layer_grown c p L ts n st x" by blast
    from layer_grown_lengths [OF this] hl tl show "topology_length_ok n0 x"
      unfolding topology_length_ok_def by (auto split: if_splits)
  qed
  show ?thesis
  proof (cases rej)
    case True
    with close_layer_Inr [OF cl] have L: "0 < L" and rb: "rollback_layer L ts1 = Inr ts2"
      by simp_all
    note re = rollback_layer_effect [OF rb]
    from True ac have ts': "ts' = ts2" by simp
    from re len1 have "history ts2 = take L (history ts1)"
      by (simp add: butlast_conv_take)
    with tk hl have h: "history ts2 = history ts" by simp
    from re len1 have t: "length (topology ts2) = n0 + L + 1" by simp
    from re tk b1 len1 h t ts' True L ss(1) ok show ?thesis by auto
  next
    case False
    with close_layer_Inr [OF cl] have ts2: "ts2 = ts1" by simp
    from False ac ts2 have "accept_layer block_stop ts1 = Inr ts'" by simp
    then have f: "history ts' = history ts1" "measure_ts ts' = measure_ts ts1"
      "topology ts' = topology ts1" "block_iter ts' = block_iter ts1"
      by (auto simp: accept_layer_Inr)
    from f tk b1 len1 False ss(1) ok show ?thesis by auto
  qed
qed

lemma fresh_layer_loop:
  assumes run: "layer_loop c p 0 (s0 :: ('w, 'm, 'h) train_states) w = Inr (rejected, ts, w')"
    and mb: "0 < max_block p"
    and bi: "block_iter s0 = 0"
    and h0: "history s0 = []"
  shows "length (measure_ts ts) = length (measure_ts s0) + length (history ts)
            + (if rejected then 1 else 0) \<and>
         topology_length_ok (length (topology s0)) ts \<and>
         (rejected \<longrightarrow> history ts \<noteq> []) \<and>
         (\<not> rejected \<longrightarrow> length (history ts) = max_layer p) \<and>
         (\<exists>ss. checkpoints w' = checkpoints w @ ss \<and>
            (\<forall>x\<in>set ss. topology_length_ok (length (topology s0)) x))"
proof (rule layer_loop_rule [OF run,
    where I = "\<lambda>L ts1 w1. L \<le> max_layer p \<and> block_iter ts1 = 0 \<and> length (history ts1) = L \<and>
                 length (measure_ts ts1) = length (measure_ts s0) + L \<and>
                 length (topology ts1) = length (topology s0) + (if L = 0 then 0 else L + 1) \<and>
                 (\<exists>ss. checkpoints w1 = checkpoints w @ ss \<and>
                    (\<forall>x\<in>set ss. topology_length_ok (length (topology s0)) x))"
      and Q = "\<lambda>rejected ts1 w1.
                 length (measure_ts ts1) = length (measure_ts s0) + length (history ts1)
                    + (if rejected then 1 else 0) \<and>
                 topology_length_ok (length (topology s0)) ts1 \<and>
                 (rejected \<longrightarrow> history ts1 \<noteq> []) \<and>
                 (\<not> rejected \<longrightarrow> length (history ts1) = max_layer p) \<and>
                 (\<exists>ss. checkpoints w1 = checkpoints w @ ss \<and>
                    (\<forall>x\<in>set ss. topology_length_ok (length (topology s0)) x))"])
  show "0 \<le> max_layer p \<and> block_iter s0 = 0 \<and> length (history s0) = 0 \<and>
        length (measure_ts s0) = length (measure_ts s0) + 0 \<and>
        length (topology s0) = length (topology s0) + (if (0::nat) = 0 then 0 else 0 + 1) \<and>
        (\<exists>ss. checkpoints w = checkpoints w @ ss \<and>
           (\<forall>x\<in>set ss. topology_length_ok (length (topology s0)) x))"
    using bi h0 by simp
next
  fix L ts1 w1 rej ts1' w1'
  assume L: "L < max_layer p"
    and I: "L \<le> max_layer p \<and> block_iter ts1 = 0 \<and> length (history ts1) = L \<and>
            length (measure_ts ts1) = length (measure_ts s0) + L \<and>
            length (topology ts1) = length (topology s0) + (if L = 0 then 0 else L + 1) \<and>
            (\<exists>ss. checkpoints w1 = checkpoints w @ ss \<and>
               (\<forall>x\<in>set ss. topology_length_ok (length (topology s0)) x))"
    and it: "layer_iteration c p L ts1 w1 = Inr (rej, ts1', w1')"
  from I obtain ss where ss: "checkpoints w1 = checkpoints w @ ss"
    "\<forall>x\<in>set ss. topology_length_ok (length (topology s0)) x"
    by blast
  from I have i: "block_iter ts1 = 0" "length (history ts1) = L"
    "length (measure_ts ts1) = length (measure_ts s0) + L"
    "length (topology ts1) = length (topology s0) + (if L = 0 then 0 else L + 1)"
    by simp_all
  from fresh_layer_iteration [OF it mb i(1) i(2) i(4)] obtain ss' where
    f: "block_iter ts1' = 0" "length (measure_ts ts1') = length (measure_ts ts1) + 1"
      "if rej then 0 < L \<and> history ts1' = history ts1 \<and>
                   length (topology ts1') = length (topology s0) + L + 1
       else length (history ts1') = Suc L \<and>
            length (topology ts1') = length (topology s0) + Suc L + 1" and
    ss': "checkpoints w1' = checkpoints w1 @ ss'"
      "\<forall>x\<in>set ss'. topology_length_ok (length (topology s0)) x"
    by blast
  from ss ss' have cp: "\<exists>ss. checkpoints w1' = checkpoints w @ ss \<and>
               (\<forall>x\<in>set ss. topology_length_ok (length (topology s0)) x)"
    by (intro exI [of _ "ss @ ss'"]) auto
  show "if rej
        then length (measure_ts ts1') = length (measure_ts s0) + length (history ts1')
               + (if True then 1 else 0) \<and>
             topology_length_ok (length (topology s0)) ts1' \<and>
             (True \<longrightarrow> history ts1' \<noteq> []) \<and>
             (\<not> True \<longrightarrow> length (history ts1') = max_layer p) \<and>
             (\<exists>ss. checkpoints w1' = checkpoints w @ ss \<and>
                (\<forall>x\<in>set ss. topology_length_ok (length (topology s0)) x))
        else Suc L \<le> max_layer p \<and> block_iter ts1' = 0 \<and> length (history ts1') = Suc L \<and>
             length (measure_ts ts1') = length (measure_ts s0) + Suc L \<and>
             length (topology ts1') = length (topology s0) + (if Suc L = 0 then 0 else Suc L + 1) \<and>
             (\<exists>ss. checkpoints w1' = checkpoints w @ ss \<and>
                (\<forall>x\<in>set ss. topology_length_ok (length (topology s0)) x))"
  proof (cases rej)
    case True
    with f i have "length (history ts1') = L" "0 < L" "history ts1' \<noteq> []"
      "length (topology ts1') = length (topology s0) + L + 1"
      "length (measure_ts ts1') = length (measure_ts s0) + L + 1"
      by auto
    with True cp show ?thesis by (simp add: topology_length_ok_def)
  next
    case False
    with f i L cp show ?thesis by simp
  qed
next
  fix L and ts1 :: "('w, 'm, 'h) train_states" and w1 :: "('w, 'm, 'h, 'o) world"
  assume "max_layer p \<le> L"
    and "L \<le> max_layer p \<and> block_iter ts1 = 0 \<and> length (history ts1) = L \<and>
         length (measure_ts ts1) = length (measure_ts s0) + L \<and>
         length (topology ts1) = length (topology s0) + (if L = 0 then 0 else L + 1) \<and>
         (\<exists>ss. checkpoints w1 = checkpoints w @ ss \<and>
            (\<forall>x\<in>set ss. topology_length_ok (length (topology s0)) x))"
  then show "length (measure_ts ts1) = length (measure_ts s0) + length (history ts1)
               + (if False then 1 else 0) \<and>
             topology_length_ok (length (topology s0)) ts1 \<and>
             (False \<longrightarrow> history ts1 \<noteq> []) \<and>
             (\<not> False \<longrightarrow> length (history ts1) = max_layer p) \<and>
             (\<exists>ss. checkpoints w1 = checkpoints w @ ss \<and>
                (\<forall>x\<in>set ss. topology_length_ok (length (topology s0)) x))"
    by (auto simp: topology_length_ok_def)
qed

lemma grow_Inr:
  "grow c p ts w = Inr (ts', w') \<longleftrightarrow>
     (if is_finished ts then ts' = ts \<and> w' = w
      else \<exists>rejected ts1 w1. layer_loop c p (layer_iter ts) ts w = Inr (rejected, ts1, w1) \<and>
             ts' = ts1\<lparr>is_finished := True\<rparr> \<and> dump ts' w1 = Inr w')"
  unfolding grow_def by (auto simp: bind_res_Inr_iff Let_def)

lemma layer_iteration_rejected_entries:
  assumes it: "layer_iteration c p L ts w = Inr (True, ts', w')"
    and mb: "0 < max_block p"
    and bi: "block_iter ts = 0"
    and hl: "length (history ts) = L"
    and ml: "length (measure_ts ts) = L"
  shows "history ts' = history ts \<and> length (measure_ts ts') = L + 1 \<and>
         take L (measure_ts ts') = measure_ts ts"
proof -
  from it bi obtain block_stop ts1 where
    bl: "block_loop c p L 0 ts w = Inr (block_stop, ts1, w')" and
    cl: "close_layer c p L ts1 = Inr (True, ts')"
    by (auto simp: layer_iteration_Inr)
  from block_loop_layer_grown [OF bl mb] obtain n where
    g: "layer_grown c p L ts n block_stop ts1"
    by blast
  from layer_grown_lengths [OF g] hl ml have len1: "length (history ts1) = L + 1"
    "length (measure_ts ts1) = L + 1"
    by simp_all
  note tk = block_loop_take [OF bl]
  from close_layer_Inr [OF cl] have rb: "rollback_layer L ts1 = Inr ts'" by simp
  note re = rollback_layer_effect [OF rb]
  from re len1 have "history ts' = take L (history ts1)"
    by (simp add: butlast_conv_take)
  with tk hl have "history ts' = history ts" by simp
  moreover from re len1 have "length (measure_ts ts') = L + 1" by simp
  moreover from re tk ml have "take L (measure_ts ts') = measure_ts ts" by simp
  ultimately show ?thesis by simp
qed

section \<open>History and measures under the layer rollback\<close>

text \<open>
  The layer rollback deletes the last history entry and leaves the measures as they
  are. When a pass of the layer loop for layer \<open>L\<close>, entered at block 0 with \<open>L\<close>
  history entries and \<open>L\<close> measure entries, rejects the layer, the history is the one
  the pass started with, and the measures are those it started with followed by the
  entry of layer \<open>L\<close>. A run of the layer loop from layer 0 with no history and no
  measures ends with as many measure entries as history entries when no layer is
  rejected and with one more when the loop ends in the layer rollback.
\<close>

lemma layer_rollback_keeps_measure:
  "(rollback_layer L ts = Inr ts' \<longrightarrow>
      history ts \<noteq> [] \<and> history ts' = butlast (history ts) \<and> measure_ts ts' = measure_ts ts) \<and>
   (layer_iteration c p L' s w = Inr (True, s', w') \<and> 0 < max_block p \<and> block_iter s = 0 \<and>
    length (history s) = L' \<and> length (measure_ts s) = L' \<longrightarrow>
      history s' = history s \<and> length (measure_ts s') = L' + 1 \<and>
      take L' (measure_ts s') = measure_ts s) \<and>
   (layer_loop c p 0 s0 w0 = Inr (rejected, s1, w1) \<and> 0 < max_block p \<and> block_iter s0 = 0 \<and>
    history s0 = [] \<and> measure_ts s0 = [] \<longrightarrow>
      length (measure_ts s1) = length (history s1) + (if rejected then 1 else 0))"
proof -
  have a: "history ts \<noteq> [] \<and> history ts' = butlast (history ts) \<and> measure_ts ts' = measure_ts ts"
    if "rollback_layer L ts = Inr ts'"
    using rollback_layer_effect [OF that] by simp
  have b: "history s' = history s \<and> length (measure_ts s') = L' + 1 \<and>
      take L' (measure_ts s') = measure_ts s"
    if "layer_iteration c p L' s w = Inr (True, s', w') \<and> 0 < max_block p \<and> block_iter s = 0 \<and>
        length (history s) = L' \<and> length (measure_ts s) = L'"
  proof -
    from that have h: "layer_iteration c p L' s w = Inr (True, s', w')" "0 < max_block p"
      "block_iter s = 0" "length (history s) = L'" "length (measure_ts s) = L'"
      by simp_all
    show ?thesis by (rule layer_iteration_rejected_entries [OF h])
  qed
  have c: "length (measure_ts s1) = length (history s1) + (if rejected then 1 else 0)"
    if "layer_loop c p 0 s0 w0 = Inr (rejected, s1, w1) \<and> 0 < max_block p \<and> block_iter s0 = 0 \<and>
        history s0 = [] \<and> measure_ts s0 = []"
  proof -
    from that have h: "layer_loop c p 0 s0 w0 = Inr (rejected, s1, w1)" "0 < max_block p"
      "block_iter s0 = 0" "history s0 = []" and m0: "measure_ts s0 = []"
      by simp_all
    from fresh_layer_loop [OF h]
    have "length (measure_ts s1) = length (measure_ts s0) + length (history s1)
            + (if rejected then 1 else 0)"
      by (rule conjunct1)
    with m0 show ?thesis by simp
  qed
  show ?thesis
    by (rule conjI [OF impI [OF a] conjI [OF impI [OF b] impI [OF c]]])
qed

text \<open>
  Layer 1 rejected under a layer threshold of 20: the rollback on the grown layer, the
  pass of the layer loop that rejects it, and the run of two layers from a fresh state.
\<close>

lemma layer_rollback_keeps_measure_demo:
  "history (projr (rollback_layer 1 demo_layer1_grown)) = [[7]] \<and>
   measure_ts (projr (rollback_layer 1 demo_layer1_grown)) = [[90], [80]] \<and>
   fst (projr demo_reject_iteration) \<and>
   history (fst (snd (projr demo_reject_iteration))) = [[7]] \<and>
   length (measure_ts (fst (snd (projr demo_reject_iteration)))) = 2 \<and>
   fst (projr demo_reject_run) \<and>
   length (measure_ts (fst (snd (projr demo_reject_run))))
     = length (history (fst (snd (projr demo_reject_run)))) + 1"
proof -
  let ?p = "demo_params 2 1 5 20"
  have "\<not> isl (rollback_layer 1 demo_layer1_grown)"
    by (simp add: loop_defs step_defs demo_layer1_grown_def cong: bind_res_weak_cong)
  then obtain r where r: "rollback_layer 1 demo_layer1_grown = Inr r"
    by (cases "rollback_layer 1 demo_layer1_grown") auto
  have "\<exists>s' w'. demo_reject_iteration = Inr (True, s', w')"
    by (simp add: demo_reject_iteration_def demo_layer0_closed_def loop_defs step_defs demo_defs
        cong: bind_res_weak_cong)
  then obtain s' w' where i: "demo_reject_iteration = Inr (True, s', w')" by blast
  have "\<exists>s1 w1. demo_reject_run = Inr (True, s1, w1)"
    by (simp add: demo_reject_run_def loop_defs step_defs demo_defs cong: bind_res_weak_cong)
  then obtain s1 w1 where l: "demo_reject_run = Inr (True, s1, w1)" by blast
  have h2: "layer_iteration demo_collab ?p 1 demo_layer0_closed demo_world = Inr (True, s', w') \<and>
      0 < max_block ?p \<and> block_iter demo_layer0_closed = 0 \<and>
      length (history demo_layer0_closed) = 1 \<and> length (measure_ts demo_layer0_closed) = 1"
    using i by (simp add: demo_reject_iteration_def demo_layer0_closed_def demo_params_def)
  have h3: "layer_loop demo_collab ?p 0 (demo_fresh ?p) demo_world = Inr (True, s1, w1) \<and>
      0 < max_block ?p \<and> block_iter (demo_fresh ?p) = 0 \<and>
      history (demo_fresh ?p) = [] \<and> measure_ts (demo_fresh ?p) = []"
    using l by (simp add: demo_reject_run_def demo_fresh_def demo_params_def)
  note T = layer_rollback_keeps_measure [of 1 demo_layer1_grown r demo_collab ?p 1
      demo_layer0_closed demo_world s' w' "demo_fresh ?p" demo_world True s1 w1]
  note T1 = mp [OF T [THEN conjunct1] r]
  from T1 have a1: "history r = butlast (history demo_layer1_grown)"
    by (elim conjE)
  from T1 have a2: "measure_ts r = measure_ts demo_layer1_grown"
    by (elim conjE)
  note a = a1 a2
  note T2 = mp [OF T [THEN conjunct2, THEN conjunct1] h2]
  from T2 have b1: "history s' = history demo_layer0_closed"
    by (elim conjE)
  from T2 have b2: "length (measure_ts s') = 1 + 1"
    by (elim conjE)
  note b = b1 b2
  from mp [OF T [THEN conjunct2, THEN conjunct2] h3]
  have c: "length (measure_ts s1) = length (history s1) + (if True then 1 else 0)" .
  from a have a': "history r = [[7]]" "measure_ts r = [[90], [80]]"
    by (simp_all add: demo_layer1_grown_def)
  from b have b': "history s' = [[7]]" "length (measure_ts s') = 2"
    by (simp_all add: demo_layer0_closed_def)
  from c have c': "length (measure_ts s1) = length (history s1) + 1" by simp
  have "projr (rollback_layer 1 demo_layer1_grown) = r"
    "projr demo_reject_iteration = (True, s', w')" "projr demo_reject_run = (True, s1, w1)"
    by (simp_all only: r i l sum.sel)
  with a' b' c' show ?thesis by (simp only: fst_conv snd_conv simp_thms)
qed

lemma block_loop_unfold:
  "k < max_block p \<Longrightarrow>
   block_loop c p L k ts w =
     (case block_iteration c p L k ts w of
        Inl e \<Rightarrow> Inl e
      | Inr (stop, ts', w') \<Rightarrow>
          if stop then Inr (True, ts', w') else block_loop c p L (Suc k) ts' w')"
  by (subst block_loop.simps) (simp add: bind_res_def split: sum.splits)

lemma block_loop_done: "max_block p \<le> k \<Longrightarrow> block_loop c p L k ts w = Inr (False, ts, w)"
  by (subst block_loop.simps) simp

lemma layer_loop_unfold:
  "L < max_layer p \<Longrightarrow>
   layer_loop c p L ts w =
     (case layer_iteration c p L ts w of
        Inl e \<Rightarrow> Inl e
      | Inr (rejected, ts', w') \<Rightarrow>
          if rejected then Inr (True, ts', w') else layer_loop c p (Suc L) ts' w')"
  by (subst layer_loop.simps) (simp add: bind_res_def split: sum.splits)

lemma layer_loop_done: "max_layer p \<le> L \<Longrightarrow> layer_loop c p L ts w = Inr (False, ts, w)"
  by (subst layer_loop.simps) simp

lemma block_loop_rule2:
  assumes init: "I k ts w"
    and step: "\<And>k ts w stop ts' w'. k < max_block p \<Longrightarrow> I k ts w \<Longrightarrow>
                 block_iteration c p L k ts w = Inr (stop, ts', w') \<Longrightarrow>
                 (if stop then Q True ts' w' else I (Suc k) ts' w')"
    and exit: "\<And>k ts w. max_block p \<le> k \<Longrightarrow> I k ts w \<Longrightarrow> Q False ts w"
    and err: "\<And>k ts w e w'. k < max_block p \<Longrightarrow> I k ts w \<Longrightarrow>
                 block_iteration c p L k ts w = Inl (e, w') \<Longrightarrow> E e w'"
  shows "(\<forall>stop ts' w'. block_loop c p L k ts w = Inr (stop, ts', w') \<longrightarrow> Q stop ts' w') \<and>
         (\<forall>e w'. block_loop c p L k ts w = Inl (e, w') \<longrightarrow> E e w')"
  using init
proof (induction "max_block p - k" arbitrary: k ts w)
  case 0
  then have "max_block p \<le> k" by simp
  with 0 exit show ?case by (simp add: block_loop_done)
next
  case (Suc n)
  then have k: "k < max_block p" by simp
  show ?case
  proof (cases "block_iteration c p L k ts w")
    case (Inl ew)
    obtain e w' where ew: "ew = (e, w')" by (cases ew)
    with Inl err [OF k Suc.prems] show ?thesis
      by (simp add: block_loop_unfold [OF k])
  next
    case (Inr r)
    obtain stop ts1 w1 where r: "r = (stop, ts1, w1)" by (cases r)
    note st = step [OF k Suc.prems Inr [unfolded r]]
    show ?thesis
    proof (cases stop)
      case True
      with Inr r st show ?thesis by (simp add: block_loop_unfold [OF k])
    next
      case False
      with st have I': "I (Suc k) ts1 w1" by simp
      from Suc.hyps(2) k have "n = max_block p - Suc k" by simp
      from Suc.hyps(1) [OF this I'] Inr r False show ?thesis
        by (simp add: block_loop_unfold [OF k])
    qed
  qed
qed

lemma layer_loop_rule2:
  assumes init: "I L ts w"
    and step: "\<And>L ts w rejected ts' w'. L < max_layer p \<Longrightarrow> I L ts w \<Longrightarrow>
                 layer_iteration c p L ts w = Inr (rejected, ts', w') \<Longrightarrow>
                 (if rejected then Q True ts' w' else I (Suc L) ts' w')"
    and exit: "\<And>L ts w. max_layer p \<le> L \<Longrightarrow> I L ts w \<Longrightarrow> Q False ts w"
    and err: "\<And>L ts w e w'. L < max_layer p \<Longrightarrow> I L ts w \<Longrightarrow>
                 layer_iteration c p L ts w = Inl (e, w') \<Longrightarrow> E e w'"
  shows "(\<forall>rejected ts' w'. layer_loop c p L ts w = Inr (rejected, ts', w') \<longrightarrow> Q rejected ts' w') \<and>
         (\<forall>e w'. layer_loop c p L ts w = Inl (e, w') \<longrightarrow> E e w')"
  using init
proof (induction "max_layer p - L" arbitrary: L ts w)
  case 0
  then have "max_layer p \<le> L" by simp
  with 0 exit show ?case by (simp add: layer_loop_done)
next
  case (Suc n)
  then have L: "L < max_layer p" by simp
  show ?case
  proof (cases "layer_iteration c p L ts w")
    case (Inl ew)
    obtain e w' where ew: "ew = (e, w')" by (cases ew)
    with Inl err [OF L Suc.prems] show ?thesis
      by (simp add: layer_loop_unfold [OF L])
  next
    case (Inr r)
    obtain rej ts1 w1 where r: "r = (rej, ts1, w1)" by (cases r)
    note st = step [OF L Suc.prems Inr [unfolded r]]
    show ?thesis
    proof (cases rej)
      case True
      with Inr r st show ?thesis by (simp add: layer_loop_unfold [OF L])
    next
      case False
      with st have I': "I (Suc L) ts1 w1" by simp
      from Suc.hyps(2) L have "n = max_layer p - Suc L" by simp
      from Suc.hyps(1) [OF this I'] Inr r False show ?thesis
        by (simp add: layer_loop_unfold [OF L])
    qed
  qed
qed

lemma propose_block_Inl:
  "propose_block c p L k ts w = Inl (e, w') \<Longrightarrow> w' = w"
  unfolding propose_block_def
  by (auto simp: bind_res_Inl_iff raise_in_Inl_iff split: if_splits)

lemma dump_Inl: "dump ts w = Inl (e, w') \<Longrightarrow> w' = w"
  by (auto simp: dump_def split: if_splits)

lemma train_block_world:
  "train_block c p L k ts w = Inr (r, ts', w') \<Longrightarrow>
     w' = w\<lparr>events := events w @ [Trained (block_names L k)]\<rparr>"
  by (cases r) (auto simp: train_block_Inr)

lemma block_iteration_Inl_world:
  assumes "block_iteration c p L k ts w = Inl (e, w')"
  shows "checkpoints w' = checkpoints w \<and> cuda w' = cuda w \<and> pickle w' = pickle w \<and>
         tmp_exists w' = tmp_exists w \<and> model_data w' = model_data w"
proof -
  have P: "checkpoints v' = checkpoints v \<and> cuda v' = cuda v \<and> pickle v' = pickle v \<and>
         tmp_exists v' = tmp_exists v \<and> model_data v' = model_data v"
    if "v' = v \<or> v' = v\<lparr>events := events v @ [Trained n]\<rparr>" for v v' :: "('a, 'b, 'c, 'd) world" and n
    using that by (auto simp: checkpoints_def)
  from assms show ?thesis
    unfolding block_iteration_def
    apply (simp add: bind_res_Inl_iff raise_in_Inl_iff split: if_splits)
    apply (elim disjE exE conjE)
    apply (auto simp: raise_in_Inl_iff bind_res_Inl_iff checkpoints_def
        dest!: propose_block_Inl dump_Inl train_block_world propose_block_world
        simp: train_block_Inl split: if_splits prod.splits)
    done
qed

lemma saved_all_refl: "saved_all P w w"
  unfolding saved_all_def by (intro exI [of _ "[]"]) simp

lemma saved_all_snoc:
  assumes "saved_all P w0 v" and "checkpoints v' = checkpoints v @ [x]" and "P x"
  shows "saved_all P w0 v'"
proof -
  from assms(1) obtain ss where "checkpoints v = checkpoints w0 @ ss" "\<forall>x\<in>set ss. P x"
    unfolding saved_all_def by blast
  with assms(2,3) show ?thesis
    unfolding saved_all_def by (intro exI [of _ "ss @ [x]"]) simp
qed

lemma saved_all_same:
  assumes "saved_all P w0 v" and "checkpoints v' = checkpoints v"
  shows "saved_all P w0 v'"
  using assms unfolding saved_all_def by simp

lemma block_iteration_lengths:
  assumes it: "block_iteration c p L k ts w = Inr (stop, ts', w')"
    and pre: "if k = 0 then length (history ts) = L \<and>
                   length (topology ts) = n0 + (if L = 0 then 0 else L + 1)
              else length (history ts) = L + 1 \<and> length (topology ts) = n0 + L + 2"
  shows "length (history ts') = L + 1 \<and> length (topology ts') = n0 + L + 2"
proof -
  from block_iteration_effect [OF it] obtain ts1 b h where
    st: "(if k = 0 then start_layer p L ts else Inr ts) = Inr ts1" and
    topo: "topology ts' = (topology ts1)[length (topology ts1) - 2 :=
                       Blocks (if stop then b else b @ [(''gop'', block_size p)])]" and
    hist: "history ts' = (if stop then history ts1 else (history ts1)[L := history ts1 ! L @ [h]])"
    by auto
  have "length (history ts1) = L + 1 \<and> length (topology ts1) = n0 + L + 2"
  proof (cases "k = 0")
    case True
    with st have "start_layer p L ts = Inr ts1" by simp
    then have "history ts1 = history ts @ [[]]"
      "topology ts1 = (if 0 < L then butlast (topology ts) else topology ts)
                             @ [Blocks [], Desc (''dense'', output_dim p)]"
      by (auto simp: start_layer_Inr)
    with pre True show ?thesis by auto
  next
    case False
    with st pre show ?thesis by auto
  qed
  with topo hist show ?thesis by (cases stop) simp_all
qed

lemma lengths_block_loop:
  assumes pre: "if k = 0 then length (history ts) = L \<and>
                   length (topology ts) = n0 + (if L = 0 then 0 else L + 1)
              else length (history ts) = L + 1 \<and> length (topology ts) = n0 + L + 2"
    and bk: "block_iter ts = k" "k < max_block p"
    and cp: "saved_all (topology_length_ok n0) w0 w"
  shows "(\<forall>stop ts' w'. block_loop c p L k ts w = Inr (stop, ts', w') \<longrightarrow>
            length (history ts') = L + 1 \<and> length (topology ts') = n0 + L + 2 \<and>
            block_iter ts' = 0 \<and> saved_all (topology_length_ok n0) w0 w') \<and>
         (\<forall>e w'. block_loop c p L k ts w = Inl (e, w') \<longrightarrow>
            saved_all (topology_length_ok n0) w0 w')"
proof (rule block_loop_rule2 [
    where I = "\<lambda>j t v. j \<le> max_block p \<and>
                 (if j = 0 then length (history t) = L \<and>
                    length (topology t) = n0 + (if L = 0 then 0 else L + 1)
                  else length (history t) = L + 1 \<and> length (topology t) = n0 + L + 2) \<and>
                 block_iter t = (if j = max_block p then 0 else j) \<and>
                 saved_all (topology_length_ok n0) w0 v"
      and Q = "\<lambda>stop t v. length (history t) = L + 1 \<and> length (topology t) = n0 + L + 2 \<and>
                 block_iter t = 0 \<and> saved_all (topology_length_ok n0) w0 v"
      and E = "\<lambda>e v. saved_all (topology_length_ok n0) w0 v"])
  show "k \<le> max_block p \<and>
        (if k = 0 then length (history ts) = L \<and>
           length (topology ts) = n0 + (if L = 0 then 0 else L + 1)
         else length (history ts) = L + 1 \<and> length (topology ts) = n0 + L + 2) \<and>
        block_iter ts = (if k = max_block p then 0 else k) \<and>
        saved_all (topology_length_ok n0) w0 w"
    using pre bk cp by simp
next
  fix j t v stop t' v'
  assume j: "j < max_block p"
    and I: "j \<le> max_block p \<and>
            (if j = 0 then length (history t) = L \<and>
               length (topology t) = n0 + (if L = 0 then 0 else L + 1)
             else length (history t) = L + 1 \<and> length (topology t) = n0 + L + 2) \<and>
            block_iter t = (if j = max_block p then 0 else j) \<and>
            saved_all (topology_length_ok n0) w0 v"
    and it: "block_iteration c p L j t v = Inr (stop, t', v')"
  from I have pre': "if j = 0 then length (history t) = L \<and>
               length (topology t) = n0 + (if L = 0 then 0 else L + 1)
             else length (history t) = L + 1 \<and> length (topology t) = n0 + L + 2"
    and cp': "saved_all (topology_length_ok n0) w0 v"
    by simp_all
  note len = block_iteration_lengths [OF it pre']
  from len have ok: "topology_length_ok n0 t'"
    by (auto simp: topology_length_ok_def)
  from block_iteration_effect [OF it] have
    bi: "block_iter t' = (if stop \<or> j = max_block p - 1 then 0 else j + 1)"
    by auto
  from saved_all_snoc [OF cp' block_iteration_checkpoints [OF it] ok]
  have cp'': "saved_all (topology_length_ok n0) w0 v'" .
  show "if stop
        then length (history t') = L + 1 \<and> length (topology t') = n0 + L + 2 \<and>
             block_iter t' = 0 \<and> saved_all (topology_length_ok n0) w0 v'
        else Suc j \<le> max_block p \<and>
             (if Suc j = 0 then length (history t') = L \<and>
                length (topology t') = n0 + (if L = 0 then 0 else L + 1)
              else length (history t') = L + 1 \<and> length (topology t') = n0 + L + 2) \<and>
             block_iter t' = (if Suc j = max_block p then 0 else Suc j) \<and>
             saved_all (topology_length_ok n0) w0 v'"
    using len bi cp'' j by (cases stop) auto
next
  fix j t v
  assume "max_block p \<le> j"
    and "j \<le> max_block p \<and>
         (if j = 0 then length (history t) = L \<and>
            length (topology t) = n0 + (if L = 0 then 0 else L + 1)
          else length (history t) = L + 1 \<and> length (topology t) = n0 + L + 2) \<and>
         block_iter t = (if j = max_block p then 0 else j) \<and>
         saved_all (topology_length_ok n0) w0 v"
  with bk show "length (history t) = L + 1 \<and> length (topology t) = n0 + L + 2 \<and>
                block_iter t = 0 \<and> saved_all (topology_length_ok n0) w0 v"
    by (auto split: if_splits)
next
  fix j t v e v'
  assume "j \<le> max_block p \<and>
          (if j = 0 then length (history t) = L \<and>
             length (topology t) = n0 + (if L = 0 then 0 else L + 1)
           else length (history t) = L + 1 \<and> length (topology t) = n0 + L + 2) \<and>
          block_iter t = (if j = max_block p then 0 else j) \<and>
          saved_all (topology_length_ok n0) w0 v"
    and "block_iteration c p L j t v = Inl (e, v')"
  with block_iteration_Inl_world [of c p L j t v e v'] saved_all_same [of _ w0 v v']
  show "saved_all (topology_length_ok n0) w0 v'" by blast
qed

lemma layer_iteration_Inl:
  assumes "layer_iteration c p L ts w = Inl (e, w')"
  shows "block_loop c p L (block_iter ts) ts w = Inl (e, w') \<or>
         (\<exists>block_stop ts1. block_loop c p L (block_iter ts) ts w = Inr (block_stop, ts1, w'))"
  using assms unfolding layer_iteration_def
  by (auto simp: bind_res_Inl_iff raise_in_Inl_iff split: if_splits)

lemma lengths_layer_iteration:
  assumes H: "if block_iter ts = 0
              then length (history ts) = L \<and>
                   length (topology ts) = n0 + (if L = 0 then 0 else L + 1)
              else length (history ts) = L + 1 \<and> length (topology ts) = n0 + L + 2"
    and bk: "block_iter ts < max_block p"
    and cp: "saved_all (topology_length_ok n0) w0 w"
  shows "(\<forall>rej ts' w'. layer_iteration c p L ts w = Inr (rej, ts', w') \<longrightarrow>
            block_iter ts' = 0 \<and> saved_all (topology_length_ok n0) w0 w' \<and>
            (if rej then topology_length_ok n0 ts'
             else length (history ts') = Suc L \<and> length (topology ts') = n0 + Suc L + 1)) \<and>
         (\<forall>e w'. layer_iteration c p L ts w = Inl (e, w') \<longrightarrow>
            saved_all (topology_length_ok n0) w0 w')"
proof -
  note bl = lengths_block_loop [of "block_iter ts" ts L n0 p w0 w c, OF H refl bk cp]
  have a: "block_iter ts' = 0 \<and> saved_all (topology_length_ok n0) w0 w' \<and>
            (if rej then topology_length_ok n0 ts'
             else length (history ts') = Suc L \<and> length (topology ts') = n0 + Suc L + 1)"
    if it: "layer_iteration c p L ts w = Inr (rej, ts', w')" for rej ts' w'
  proof -
    from it obtain block_stop ts1 ts2 where
      run: "block_loop c p L (block_iter ts) ts w = Inr (block_stop, ts1, w')" and
      cl: "close_layer c p L ts1 = Inr (rej, ts2)" and
      ac: "if rej then ts' = ts2 else accept_layer block_stop ts2 = Inr ts'"
      by (auto simp: layer_iteration_Inr)
    from bl run have l1: "length (history ts1) = L + 1" "length (topology ts1) = n0 + L + 2"
      "block_iter ts1 = 0" and cp1: "saved_all (topology_length_ok n0) w0 w'"
      by blast+
    show ?thesis
    proof (cases rej)
      case True
      with close_layer_Inr [OF cl] have L: "0 < L" and rb: "rollback_layer L ts1 = Inr ts2"
        by simp_all
      note re = rollback_layer_effect [OF rb]
      from re l1 have "length (history ts2) = L" "length (topology ts2) = n0 + L + 1"
        "block_iter ts2 = 0"
        by simp_all
      with L have "topology_length_ok n0 ts2" "block_iter ts2 = 0"
        by (auto simp: topology_length_ok_def)
      with True ac cp1 show ?thesis by simp
    next
      case False
      with close_layer_Inr [OF cl] have "ts2 = ts1" by simp
      with False ac have "accept_layer block_stop ts1 = Inr ts'" by simp
      then have "history ts' = history ts1" "topology ts' = topology ts1"
        "block_iter ts' = block_iter ts1"
        by (auto simp: accept_layer_Inr)
      with l1 cp1 False show ?thesis by simp
    qed
  qed
  have b: "saved_all (topology_length_ok n0) w0 w'"
    if it: "layer_iteration c p L ts w = Inl (e, w')" for e w'
    using layer_iteration_Inl [OF it] bl by blast
  from a b show ?thesis by blast
qed

lemma lengths_layer_loop:
  assumes H: "if block_iter ts = 0
              then length (history ts) = L \<and>
                   length (topology ts) = n0 + (if L = 0 then 0 else L + 1)
              else length (history ts) = L + 1 \<and> length (topology ts) = n0 + L + 2"
    and bk: "block_iter ts < max_block p"
    and cp: "saved_all (topology_length_ok n0) w0 (w :: ('w, 'm, 'h, 'o) world)"
  shows "(\<forall>rej ts' w'. layer_loop c p L ts w = Inr (rej, ts', w') \<longrightarrow>
            topology_length_ok n0 ts' \<and> saved_all (topology_length_ok n0) w0 w') \<and>
         (\<forall>e w'. layer_loop c p L ts w = Inl (e, w') \<longrightarrow>
            saved_all (topology_length_ok n0) w0 w')"
proof (rule layer_loop_rule2 [
    where I = "\<lambda>L t v. (if block_iter t = 0
                 then length (history t) = L \<and>
                      length (topology t) = n0 + (if L = 0 then 0 else L + 1)
                 else length (history t) = L + 1 \<and> length (topology t) = n0 + L + 2) \<and>
                 block_iter t < max_block p \<and> saved_all (topology_length_ok n0) w0 v"
      and Q = "\<lambda>rej t v. topology_length_ok n0 t \<and> saved_all (topology_length_ok n0) w0 v"
      and E = "\<lambda>e v. saved_all (topology_length_ok n0) w0 v"])
  show "(if block_iter ts = 0
         then length (history ts) = L \<and>
              length (topology ts) = n0 + (if L = 0 then 0 else L + 1)
         else length (history ts) = L + 1 \<and> length (topology ts) = n0 + L + 2) \<and>
        block_iter ts < max_block p \<and> saved_all (topology_length_ok n0) w0 w"
    using H bk cp by simp
next
  fix L and t :: "('w, 'm, 'h) train_states" and v :: "('w, 'm, 'h, 'o) world"
    and rej t' v'
  assume I: "(if block_iter t = 0
                 then length (history t) = L \<and>
                      length (topology t) = n0 + (if L = 0 then 0 else L + 1)
                 else length (history t) = L + 1 \<and> length (topology t) = n0 + L + 2) \<and>
             block_iter t < max_block p \<and> saved_all (topology_length_ok n0) w0 v"
    and it: "layer_iteration c p L t v = Inr (rej, t', v')"
  from I have h: "if block_iter t = 0
                 then length (history t) = L \<and>
                      length (topology t) = n0 + (if L = 0 then 0 else L + 1)
                 else length (history t) = L + 1 \<and> length (topology t) = n0 + L + 2"
    "block_iter t < max_block p" "saved_all (topology_length_ok n0) w0 v"
    by simp_all
  from lengths_layer_iteration [OF h, of c] it have
    r: "block_iter t' = 0" "saved_all (topology_length_ok n0) w0 v'"
      "if rej then topology_length_ok n0 t'
       else length (history t') = Suc L \<and> length (topology t') = n0 + Suc L + 1"
    by blast+
  show "if rej then topology_length_ok n0 t' \<and> saved_all (topology_length_ok n0) w0 v'
        else (if block_iter t' = 0
              then length (history t') = Suc L \<and>
                   length (topology t') = n0 + (if Suc L = 0 then 0 else Suc L + 1)
              else length (history t') = Suc L + 1 \<and> length (topology t') = n0 + Suc L + 2) \<and>
             block_iter t' < max_block p \<and> saved_all (topology_length_ok n0) w0 v'"
    using r h(2) by (cases rej) auto
next
  fix L and t :: "('w, 'm, 'h) train_states" and v :: "('w, 'm, 'h, 'o) world"
  assume "(if block_iter t = 0
                 then length (history t) = L \<and>
                      length (topology t) = n0 + (if L = 0 then 0 else L + 1)
                 else length (history t) = L + 1 \<and> length (topology t) = n0 + L + 2) \<and>
          block_iter t < max_block p \<and> saved_all (topology_length_ok n0) w0 v"
  then show "topology_length_ok n0 t \<and> saved_all (topology_length_ok n0) w0 v"
    by (auto simp: topology_length_ok_def split: if_splits)
next
  fix L and t :: "('w, 'm, 'h) train_states" and v :: "('w, 'm, 'h, 'o) world"
    and e v'
  assume I: "(if block_iter t = 0
                 then length (history t) = L \<and>
                      length (topology t) = n0 + (if L = 0 then 0 else L + 1)
                 else length (history t) = L + 1 \<and> length (topology t) = n0 + L + 2) \<and>
             block_iter t < max_block p \<and> saved_all (topology_length_ok n0) w0 v"
    and it: "layer_iteration c p L t v = Inl (e, v')"
  from I have h: "if block_iter t = 0
                 then length (history t) = L \<and>
                      length (topology t) = n0 + (if L = 0 then 0 else L + 1)
                 else length (history t) = L + 1 \<and> length (topology t) = n0 + L + 2"
    "block_iter t < max_block p" "saved_all (topology_length_ok n0) w0 v"
    by simp_all
  from lengths_layer_iteration [OF h, of c] it
  show "saved_all (topology_length_ok n0) w0 v'" by blast
qed

lemma grow_cases:
  "grow c p ts w =
     (if is_finished ts then Inr (ts, w)
      else case layer_loop c p (layer_iter ts) ts w of
             Inl e \<Rightarrow> Inl e
           | Inr (rejected, ts1, w1) \<Rightarrow>
               (case dump (ts1\<lparr>is_finished := True\<rparr>) w1 of
                  Inl e \<Rightarrow> Inl e
                | Inr w2 \<Rightarrow> Inr (ts1\<lparr>is_finished := True\<rparr>, w2)))"
  unfolding grow_def by (auto simp: bind_res_def Let_def split: sum.splits)

lemma lengths_grow:
  assumes res: "resumable n0 p s0"
  shows "saved_all (topology_length_ok n0) w (outcome_world (grow c p s0 w)) \<and>
         (\<forall>ts w'. grow c p s0 w = Inr (ts, w') \<longrightarrow> topology_length_ok n0 ts)"
proof (cases "is_finished s0")
  case True
  with res show ?thesis
    by (simp add: grow_cases outcome_world_def saved_all_refl resumable_def)
next
  case False
  from res have H: "if block_iter s0 = 0
              then length (history s0) = layer_iter s0 \<and>
                   length (topology s0) = n0 + (if layer_iter s0 = 0 then 0 else layer_iter s0 + 1)
              else length (history s0) = layer_iter s0 + 1 \<and>
                   length (topology s0) = n0 + layer_iter s0 + 2"
    and bk: "block_iter s0 < max_block p"
    by (cases "history s0"; auto simp: resumable_def topology_length_ok_def split: if_splits)+
  note ll = lengths_layer_loop [OF H bk saved_all_refl, of c w]
  show ?thesis
  proof (cases "layer_loop c p (layer_iter s0) s0 w")
    case (Inl ew)
    obtain e w' where "ew = (e, w')" by (cases ew)
    with Inl ll False show ?thesis
      by (simp add: grow_cases outcome_world_def)
  next
    case (Inr r)
    obtain rej ts1 w1 where r: "r = (rej, ts1, w1)" by (cases r)
    with Inr ll have ok1: "topology_length_ok n0 ts1"
      and cp1: "saved_all (topology_length_ok n0) w w1"
      by simp_all
    let ?ts2 = "ts1\<lparr>is_finished := True\<rparr>"
    from ok1 have ok2: "topology_length_ok n0 ?ts2"
      by (simp add: topology_length_ok_def)
    show ?thesis
    proof (cases "dump ?ts2 w1")
      case (Inl ew)
      obtain e w' where ew: "ew = (e, w')" by (cases ew)
      with Inl dump_Inl [of ?ts2 w1 e w'] have "w' = w1" by simp
      with Inl ew Inr r False cp1 show ?thesis
        by (simp add: grow_cases outcome_world_def)
    next
      case (Inr w2)
      then have "checkpoints w2 = checkpoints w1 @ [?ts2]"
        by (auto simp: dump_Inr checkpoints_def)
      from saved_all_snoc [OF cp1 this ok2] Inr \<open>layer_loop c p (layer_iter s0) s0 w = Inr r\<close>
        r False ok2
      show ?thesis
        by (simp add: grow_cases outcome_world_def)
    qed
  qed
qed




section \<open>Failure of the training call\<close>



section \<open>Length of the topology\<close>

text \<open>
  C1 (as amended). Let the growth start from a state whose history agrees with its
  cursors: the block cursor is below \<open>max_block\<close>, the history has \<open>layer_iter\<close>
  entries when the block cursor is 0 and one more when it is not, and the topology has
  \<open>n0\<close> elements when there is no history entry and \<open>n0 + 1 + layers\<close> elements
  otherwise, \<open>layers\<close> being the number of history entries (one per accepted or
  in-progress layer). A fresh state is such a state, and so is every checkpoint written
  inside a layer. Then every checkpoint the run writes, whether the run returns or
  raises, and the state it returns have a topology of \<open>n0 + 1 + layers\<close> elements once
  a layer exists.
\<close>

theorem topology_length:
  assumes res: "resumable n0 p s0"
  shows "(\<exists>ss. checkpoints (outcome_world (grow c p s0 w)) = checkpoints w @ ss \<and>
            (\<forall>x\<in>set ss. topology_length_ok n0 x)) \<and>
         (\<forall>ts w'. grow c p s0 w = Inr (ts, w') \<longrightarrow> topology_length_ok n0 ts)"
  using lengths_grow [OF res, of w c] unfolding saved_all_def .

text \<open>
  A run resumed inside layer 0, after its first block, that returns; a fresh run of two
  layers of two blocks that raises at its fourth training call; and a fresh run of two
  layers of one block, which ends with four elements.
\<close>

theorem topology_length_witness:
  "resumable 1 (demo_params 1 2 5 5) demo_block0 \<and>
   \<not> isl demo_resumed_mid \<and>
   map length (map topology (checkpoints (outcome_world demo_resumed_mid))) = [3, 3] \<and>
   map length (map history (checkpoints (outcome_world demo_resumed_mid))) = [1, 1] \<and>
   list_all (topology_length_ok 1) (checkpoints (outcome_world demo_resumed_mid)) \<and>
   resumable 1 (demo_params 2 2 5 5) (demo_fresh (demo_params 2 2 5 5)) \<and>
   isl demo_abort_run \<and>
   map length (map topology (checkpoints (outcome_world demo_abort_run))) = [3, 3, 4] \<and>
   map length (map history (checkpoints (outcome_world demo_abort_run))) = [1, 1, 2] \<and>
   list_all (topology_length_ok 1) (checkpoints (outcome_world demo_abort_run)) \<and>
   resumable 1 (demo_params 2 1 5 5) (demo_fresh (demo_params 2 1 5 5)) \<and>
   \<not> isl demo_grow_2x1 \<and>
   length (history (fst (projr demo_grow_2x1))) = 2 \<and>
   length (topology (fst (projr demo_grow_2x1))) = 4"
proof -
  let ?p = "demo_params 1 2 5 5"
  let ?q = "demo_params 2 2 5 5"
  let ?r = "demo_params 2 1 5 5"
  have w0: "checkpoints demo_world = []"
    by (simp add: checkpoints_def demo_world_def)
  have res1: "resumable 1 ?p demo_block0"
    by (simp add: resumable_def topology_length_ok_def demo_defs)
  have res2: "resumable 1 ?q (demo_fresh ?q)"
    by (simp add: resumable_def topology_length_ok_def demo_defs)
  have res3: "resumable 1 ?r (demo_fresh ?r)"
    by (simp add: resumable_def topology_length_ok_def demo_defs)
  from topology_length [OF res1, of demo_collab demo_world] w0
  have a: "list_all (topology_length_ok 1) (checkpoints (outcome_world demo_resumed_mid))"
    by (auto simp only: demo_resumed_mid_def list_all_iff append_Nil)
  from topology_length [OF res2, of demo_fail_fourth demo_world] w0
  have b: "list_all (topology_length_ok 1) (checkpoints (outcome_world demo_abort_run))"
    by (auto simp only: demo_abort_run_def list_all_iff append_Nil)
  have "\<exists>ts w'. demo_resumed_mid = Inr (ts, w') \<and>
          map length (map topology (checkpoints w')) = [3, 3] \<and>
          map length (map history (checkpoints w')) = [1, 1]"
    by (simp add: demo_resumed_mid_def checkpoints_def loop_defs step_defs demo_defs
        cong: bind_res_weak_cong)
  then obtain ts w' where r1: "demo_resumed_mid = Inr (ts, w')" and
    c1: "map length (map topology (checkpoints w')) = [3, 3]"
      "map length (map history (checkpoints w')) = [1, 1]"
    by (elim exE conjE)
  have "\<exists>e w'. demo_abort_run = Inl (e, w') \<and>
          map length (map topology (checkpoints w')) = [3, 3, 4] \<and>
          map length (map history (checkpoints w')) = [1, 1, 2]"
    by (simp add: demo_abort_run_def demo_fail_fourth_def checkpoints_def loop_defs step_defs
        demo_defs cong: bind_res_weak_cong)
  then obtain e w2 where r2: "demo_abort_run = Inl (e, w2)" and
    c2: "map length (map topology (checkpoints w2)) = [3, 3, 4]"
      "map length (map history (checkpoints w2)) = [1, 1, 2]"
    by (elim exE conjE)
  have "\<exists>ts w'. demo_grow_2x1 = Inr (ts, w') \<and> history ts = [[7], [7]]"
    by (simp add: demo_grow_2x1_def loop_defs step_defs demo_defs cong: bind_res_weak_cong)
  then obtain ts3 w3 where r3: "demo_grow_2x1 = Inr (ts3, w3)" and
    h3: "history ts3 = [[7], [7]]"
    by (elim exE conjE)
  from r3 have run3: "grow demo_collab ?r (demo_fresh ?r) demo_world = Inr (ts3, w3)"
    by (simp only: demo_grow_2x1_def)
  note topology_length [OF res3, of demo_collab demo_world, THEN conjunct2, rule_format, OF run3]
  with h3 have t3: "length (topology ts3) = 4"
    by (simp add: topology_length_ok_def)
  from h3 t3 have d: "\<not> isl demo_grow_2x1 \<and>
      length (history (fst (projr demo_grow_2x1))) = 2 \<and>
      length (topology (fst (projr demo_grow_2x1))) = 4"
    by (simp add: r3)
  have o1: "outcome_world demo_resumed_mid = w'"
    by (simp add: r1 outcome_world_def)
  have o2: "outcome_world demo_abort_run = w2"
    by (simp add: r2 outcome_world_def)
  have i1: "\<not> isl demo_resumed_mid" by (simp add: r1)
  have i2: "isl demo_abort_run" by (simp add: r2)
  from a b d show ?thesis
    unfolding o1 o2 using res1 res2 res3 i1 i2 c1 c2 by (simp only: simp_thms)
qed

text \<open>
  C1 as stated fails: one layer grown from the topology that holds the input dimension
  gives three elements for one layer, and two layers of one block grown from the empty
  topology give three elements, not four.
\<close>

theorem topology_length_counterexample:
  "\<not> isl demo_grow_1x1 \<and>
   length (history (fst (projr demo_grow_1x1))) = 1 \<and>
   length (topology (fst (projr demo_grow_1x1))) = 3 \<and>
   \<not> isl demo_grow_empty_2x1 \<and>
   length (history (fst (projr demo_grow_empty_2x1))) = 2 \<and>
   length (topology (fst (projr demo_grow_empty_2x1))) = 3"
proof -
  have "\<exists>ts w'. demo_grow_1x1 = Inr (ts, w') \<and> length (history ts) = 1 \<and>
          length (topology ts) = 3"
    by (simp add: demo_grow_1x1_def loop_defs step_defs demo_defs cong: bind_res_weak_cong)
  then obtain ts w' where a: "demo_grow_1x1 = Inr (ts, w')"
    "length (history ts) = 1" "length (topology ts) = 3"
    by blast
  have "\<exists>ts w'. demo_grow_empty_2x1 = Inr (ts, w') \<and> length (history ts) = 2 \<and>
          length (topology ts) = 3"
    by (simp add: demo_grow_empty_2x1_def loop_defs step_defs demo_defs cong: bind_res_weak_cong)
  then obtain ts2 w2 where b: "demo_grow_empty_2x1 = Inr (ts2, w2)"
    "length (history ts2) = 2" "length (topology ts2) = 3"
    by blast
  from a(2,3) b(2,3) show ?thesis by (simp add: a(1) b(1))
qed

lemmas resume_defs = resume_from_def initialize_states_def outcome_world_def checkpoints_def

section \<open>Resuming from the checkpoint that ends a layer\<close>

text \<open>
  C2. The checkpoint written when the last block of a layer is committed (lines 313-319)
  holds block cursor 0 and the layer cursor of the layer just ended; the layer cursor
  advances only afterwards (line 341), and is not saved before the next block is
  committed. With \<open>max_layer = 1\<close> and \<open>max_block = 1\<close> the uninterrupted run ends with a
  topology of three elements and the history \<open>[[7]]\<close>. The run resumed from its first
  checkpoint enters layer 0 again at block 0: it ends with a topology of five elements,
  the history \<open>[[7, 7], []]\<close> and another weight under the key of block 0.
\<close>

theorem resume_diverges:
  "\<not> isl demo_grow_1x1 \<and>
   topology (fst (projr demo_grow_1x1)) = [Dim 4, Blocks [(''gop'', 20)], Desc (''dense'', 3)] \<and>
   history (fst (projr demo_grow_1x1)) = [[7]] \<and>
   weights (fst (projr demo_grow_1x1)) (gop_key 0 0) = Some 1 \<and>
   layer_iter demo_saved_1x1 = 0 \<and> block_iter demo_saved_1x1 = 0 \<and>
   \<not> is_finished demo_saved_1x1 \<and>
   topology demo_saved_1x1 = [Dim 4, Blocks [(''gop'', 20)], Desc (''dense'', 3)] \<and>
   history demo_saved_1x1 = [[7]] \<and>
   \<not> isl demo_resumed_1x1 \<and>
   topology (fst (projr demo_resumed_1x1))
     = [Dim 4, Blocks [(''gop'', 20)], Desc (''dense'', 3),
        Blocks [(''gop'', 20)], Desc (''dense'', 3)] \<and>
   history (fst (projr demo_resumed_1x1)) = [[7, 7], []] \<and>
   measure_ts (fst (projr demo_resumed_1x1)) = [[90, 80], []]"
proof -
  have "\<exists>ts w'. demo_grow_1x1 = Inr (ts, w') \<and>
      topology ts = [Dim 4, Blocks [(''gop'', 20)], Desc (''dense'', 3)] \<and>
      history ts = [[7]] \<and> weights ts (gop_key 0 0) = Some 1"
    by (simp add: demo_grow_1x1_def loop_defs step_defs demo_defs cong: bind_res_weak_cong)
  then obtain ts w' where r: "demo_grow_1x1 = Inr (ts, w')" and
    f: "topology ts = [Dim 4, Blocks [(''gop'', 20)], Desc (''dense'', 3)]"
      "history ts = [[7]]" "weights ts (gop_key 0 0) = Some 1"
    by (elim exE conjE)
  have s: "layer_iter demo_saved_1x1 = 0 \<and> block_iter demo_saved_1x1 = 0 \<and>
      \<not> is_finished demo_saved_1x1 \<and>
      topology demo_saved_1x1 = [Dim 4, Blocks [(''gop'', 20)], Desc (''dense'', 3)] \<and>
      history demo_saved_1x1 = [[7]]"
    by (simp add: demo_saved_1x1_def demo_grow_1x1_def resume_defs loop_defs step_defs demo_defs
        cong: bind_res_weak_cong)
  have "\<exists>ts w'. demo_resumed_1x1 = Inr (ts, w') \<and>
      topology ts = [Dim 4, Blocks [(''gop'', 20)], Desc (''dense'', 3),
                     Blocks [(''gop'', 20)], Desc (''dense'', 3)] \<and>
      history ts = [[7, 7], []] \<and> measure_ts ts = [[90, 80], []]"
    by (simp add: demo_resumed_1x1_def demo_saved_1x1_def demo_grow_1x1_def resume_defs
        loop_defs step_defs demo_defs cong: bind_res_weak_cong)
  then obtain ts2 w2 where r2: "demo_resumed_1x1 = Inr (ts2, w2)" and
    g: "topology ts2 = [Dim 4, Blocks [(''gop'', 20)], Desc (''dense'', 3),
                     Blocks [(''gop'', 20)], Desc (''dense'', 3)]"
      "history ts2 = [[7, 7], []]" "measure_ts ts2 = [[90, 80], []]"
    by (elim exE conjE)
  from s show ?thesis
    by (simp only: r r2 sum.sel sum.disc fst_conv f g simp_thms)
qed

section \<open>Operator sets of a resumed layer\<close>

text \<open>
  C7. With \<open>max_layer = 1\<close> and \<open>max_block = 3\<close>, a search that returns operator set 3 on
  a topology without blocks and 5 otherwise, and a training call that improves by 10
  for the first three blocks and then returns 88: the uninterrupted run commits three
  blocks with operator set 3. The run resumed from the checkpoint that ends the layer
  searches again for block 0 of layer 0 and stores operator set 5 under its key (line
  253); block 1 copies 5, is found converged against the old measure of block 0 and is
  deleted (lines 292-295); the committed block 2 keeps operator set 3. Blocks 0 and 2 of
  layer 0 then carry different operator sets.
\<close>

theorem resumed_layer_mixes_operator_sets:
  "\<not> isl demo_grow_1x3 \<and>
   op_set_indices (fst (projr demo_grow_1x3)) (gop_key 0 0) = Some 3 \<and>
   op_set_indices (fst (projr demo_grow_1x3)) (gop_key 0 1) = Some 3 \<and>
   op_set_indices (fst (projr demo_grow_1x3)) (gop_key 0 2) = Some 3 \<and>
   layer_iter demo_saved_1x3 = 0 \<and> block_iter demo_saved_1x3 = 0 \<and>
   \<not> is_finished demo_saved_1x3 \<and>
   topology demo_saved_1x3
     = [Dim 4, Blocks [(''gop'', 20), (''gop'', 20), (''gop'', 20)], Desc (''dense'', 3)] \<and>
   \<not> isl demo_resumed_1x3 \<and>
   op_set_indices (fst (projr demo_resumed_1x3)) (gop_key 0 0) = Some 5 \<and>
   op_set_indices (fst (projr demo_resumed_1x3)) (gop_key 0 1) = None \<and>
   op_set_indices (fst (projr demo_resumed_1x3)) (gop_key 0 2) = Some 3 \<and>
   topology (fst (projr demo_resumed_1x3))
     = [Dim 4, Blocks [(''gop'', 20), (''gop'', 20), (''gop'', 20)], Desc (''dense'', 3),
        Blocks [(''gop'', 20)], Desc (''dense'', 3)]"
proof -
  have "\<exists>ts w'. demo_grow_1x3 = Inr (ts, w') \<and>
      op_set_indices ts (gop_key 0 0) = Some 3 \<and>
      op_set_indices ts (gop_key 0 1) = Some 3 \<and>
      op_set_indices ts (gop_key 0 2) = Some 3 \<and>
      layer_iter (checkpoints w' ! 2) = 0 \<and> block_iter (checkpoints w' ! 2) = 0 \<and>
      \<not> is_finished (checkpoints w' ! 2) \<and>
      topology (checkpoints w' ! 2)
        = [Dim 4, Blocks [(''gop'', 20), (''gop'', 20), (''gop'', 20)], Desc (''dense'', 3)]"
    by (simp add: demo_grow_1x3_def demo_search_by_size_def checkpoints_def
        loop_defs step_defs demo_defs cong: bind_res_weak_cong)
  then obtain ts w' where r: "demo_grow_1x3 = Inr (ts, w')" and
    f: "op_set_indices ts (gop_key 0 0) = Some 3"
      "op_set_indices ts (gop_key 0 1) = Some 3"
      "op_set_indices ts (gop_key 0 2) = Some 3" and
    s: "layer_iter (checkpoints w' ! 2) = 0" "block_iter (checkpoints w' ! 2) = 0"
      "\<not> is_finished (checkpoints w' ! 2)"
      "topology (checkpoints w' ! 2)
        = [Dim 4, Blocks [(''gop'', 20), (''gop'', 20), (''gop'', 20)], Desc (''dense'', 3)]"
    by (elim exE conjE)
  have sv: "demo_saved_1x3 = checkpoints w' ! 2"
    by (simp add: demo_saved_1x3_def r outcome_world_def)
  have "\<exists>ts w'. demo_resumed_1x3 = Inr (ts, w') \<and>
      op_set_indices ts (gop_key 0 0) = Some 5 \<and>
      op_set_indices ts (gop_key 0 1) = None \<and>
      op_set_indices ts (gop_key 0 2) = Some 3 \<and>
      topology ts
        = [Dim 4, Blocks [(''gop'', 20), (''gop'', 20), (''gop'', 20)], Desc (''dense'', 3),
           Blocks [(''gop'', 20)], Desc (''dense'', 3)]"
    by (simp add: demo_resumed_1x3_def demo_saved_1x3_def demo_grow_1x3_def
        demo_search_by_size_def resume_defs loop_defs step_defs demo_defs
        cong: bind_res_weak_cong)
  then obtain ts2 w2 where r2: "demo_resumed_1x3 = Inr (ts2, w2)" and
    g: "op_set_indices ts2 (gop_key 0 0) = Some 5"
      "op_set_indices ts2 (gop_key 0 1) = None"
      "op_set_indices ts2 (gop_key 0 2) = Some 3"
      "topology ts2
        = [Dim 4, Blocks [(''gop'', 20), (''gop'', 20), (''gop'', 20)], Desc (''dense'', 3),
           Blocks [(''gop'', 20)], Desc (''dense'', 3)]"
    by (elim exE conjE)
  show ?thesis
    by (simp only: r r2 sv sum.sel sum.disc fst_conv f g s simp_thms)
qed

section \<open>History under the layer rollback of a resumed run\<close>

text \<open>
  C10. With \<open>max_layer = 2\<close>, \<open>max_block = 1\<close> and a layer threshold of 20, the run
  resumed from the checkpoint that ends layer 0 enters layer 0 again, which appends an
  empty entry to the history and to the measures (lines 211-212) while the results are
  appended to the entry at index \<open>layer_iter\<close> (lines 310-311). Layer 1 is then rejected:
  its block list, weights and operator set are removed, but \<^verbatim>\<open>del history[-1]\<close> (line
  336) deletes the empty entry, and the entry of layer 1, at index 1, stays.
\<close>

theorem resumed_rollback_keeps_history:
  "layer_iter demo_saved_2x1 = 0 \<and> block_iter demo_saved_2x1 = 0 \<and>
   \<not> is_finished demo_saved_2x1 \<and>
   history demo_saved_2x1 = [[7]] \<and> measure_ts demo_saved_2x1 = [[90]] \<and>
   \<not> isl demo_resumed_2x1 \<and>
   history (fst (projr demo_resumed_2x1)) = [[7, 7], [7]] \<and>
   measure_ts (fst (projr demo_resumed_2x1)) = [[90, 80], [70], []] \<and>
   map history (checkpoints (outcome_world demo_resumed_2x1))
     = [[[7, 7], []], [[7, 7], [7], []], [[7, 7], [7]]] \<and>
   op_set_indices (fst (projr demo_resumed_2x1)) (gop_key 1 0) = None \<and>
   weights (fst (projr demo_resumed_2x1)) (gop_key 1 0) = None \<and>
   layer_iter (fst (projr demo_resumed_2x1)) = 1 \<and>
   topology (fst (projr demo_resumed_2x1))
     = [Dim 4, Blocks [(''gop'', 20)], Desc (''dense'', 3),
        Blocks [(''gop'', 20)], Desc (''dense'', 3)]"
proof -
  have s: "layer_iter demo_saved_2x1 = 0 \<and> block_iter demo_saved_2x1 = 0 \<and>
      \<not> is_finished demo_saved_2x1 \<and>
      history demo_saved_2x1 = [[7]] \<and> measure_ts demo_saved_2x1 = [[90]]"
    by (simp add: demo_saved_2x1_def demo_grow_2x1_reject_def resume_defs loop_defs step_defs
        demo_defs cong: bind_res_weak_cong)
  have "\<exists>ts w'. demo_resumed_2x1 = Inr (ts, w') \<and>
      history ts = [[7, 7], [7]] \<and> measure_ts ts = [[90, 80], [70], []] \<and>
      map history (checkpoints w') = [[[7, 7], []], [[7, 7], [7], []], [[7, 7], [7]]] \<and>
      op_set_indices ts (gop_key 1 0) = None \<and> weights ts (gop_key 1 0) = None \<and>
      layer_iter ts = 1 \<and>
      topology ts = [Dim 4, Blocks [(''gop'', 20)], Desc (''dense'', 3),
                     Blocks [(''gop'', 20)], Desc (''dense'', 3)]"
    by (simp add: demo_resumed_2x1_def demo_saved_2x1_def demo_grow_2x1_reject_def resume_defs
        loop_defs step_defs demo_defs cong: bind_res_weak_cong)
  then obtain ts w' where r: "demo_resumed_2x1 = Inr (ts, w')" and
    g: "history ts = [[7, 7], [7]]" "measure_ts ts = [[90, 80], [70], []]"
      "map history (checkpoints w') = [[[7, 7], []], [[7, 7], [7], []], [[7, 7], [7]]]"
      "op_set_indices ts (gop_key 1 0) = None" "weights ts (gop_key 1 0) = None"
      "layer_iter ts = 1"
      "topology ts = [Dim 4, Blocks [(''gop'', 20)], Desc (''dense'', 3),
                     Blocks [(''gop'', 20)], Desc (''dense'', 3)]"
    by (elim exE conjE)
  have o: "outcome_world demo_resumed_2x1 = w'"
    by (simp add: r outcome_world_def)
  from s show ?thesis
    unfolding o by (simp only: r sum.sel sum.disc fst_conv g simp_thms)
qed

end
